theory Spec2Isabelle
  imports Complex_Main
begin

section \<open>JavaScript values shared by the helpers and the scripts\<close>

subsection \<open>Errors and decimal numerals\<close>

text \<open>
  Every failure the repository raises itself is a plain \<^verbatim>\<open>new Error(message)\<close>: it declares
  no error classes of its own, so an error is its message.
\<close>

datatype error = Error string

text \<open>Decimal digits of a non-negative integer, as a template literal prints it.\<close>

definition digit_char :: "nat \<Rightarrow> char" where
  "digit_char d = ''0123456789'' ! d"

fun show_nat :: "nat \<Rightarrow> string" where
  "show_nat n = (if n < 10 then [digit_char n] else show_nat (n div 10) @ [digit_char (n mod 10)])"

declare show_nat.simps [simp del]

definition show_int :: "int \<Rightarrow> string" where
  "show_int i = (if i < 0 then ''-'' @ show_nat (nat (- i)) else show_nat (nat i))"

subsection \<open>Numbers: IEEE 754 binary64\<close>

text \<open>
  A JavaScript number is a double: a finite value (a real that is a multiple of a power of two,
  with a 53-bit significand), a NaN or an infinity. The model has one zero: the repository never
  divides by a zero nor inspects its sign, and \<^verbatim>\<open>-0\<close> prints as \<^verbatim>\<open>0\<close>.

  \<open>ilog b x\<close> is the integer \<open>e\<close> with \<open>b ^ e \<le> x < b ^ (e + 1)\<close>, for \<open>x > 0\<close>;
  \<open>round_even\<close> rounds to the nearest integer, ties to the even one; \<open>fl x\<close> is the double
  nearest to the real \<open>x\<close> (round to nearest, ties to even; gradual underflow below
  \<open>2 ^ - 1022\<close>, overflow to an infinity from \<open>2 ^ 1024\<close>), the rounding every arithmetic
  operation of the language applies to its exact result.
\<close>

datatype number = Fin real | NaN | PInf | NInf

lemma ceiling_half_less:
  fixes y :: real
  assumes "1 < y"
  shows "\<lceil>y / 2\<rceil> < \<lceil>y\<rceil>"
proof (cases "y \<le> 2")
  case True
  then have "\<lceil>y / 2\<rceil> \<le> 1" by (simp add: ceiling_le_iff)
  moreover have "1 < \<lceil>y\<rceil>" using assms by (simp add: less_ceiling_iff)
  ultimately show ?thesis by linarith
next
  case False
  then have "y / 2 \<le> y - 1" by simp
  then have "\<lceil>y / 2\<rceil> \<le> \<lceil>y - 1\<rceil>" by (rule ceiling_mono)
  then show ?thesis by simp
qed

lemma ceiling_div_less:
  fixes y :: real
  assumes "1 < y" "2 \<le> b"
  shows "\<lceil>y / real b\<rceil> < \<lceil>y\<rceil>"
proof -
  have "y / real b \<le> y / 2" using assms by (intro divide_left_mono) auto
  then have "\<lceil>y / real b\<rceil> \<le> \<lceil>y / 2\<rceil>" by (rule ceiling_mono)
  with ceiling_half_less [OF assms(1)] show ?thesis by linarith
qed

function ilog :: "nat \<Rightarrow> real \<Rightarrow> int" where
  "ilog b x = (if x \<le> 0 \<or> b < 2 then 0
               else if real b \<le> x then ilog b (x / real b) + 1
               else if x < 1 then ilog b (real b * x) - 1
               else 0)"
  by pat_completeness auto
termination
proof (relation "measure (\<lambda>(b, x). nat \<lceil>x\<rceil> + b * nat \<lceil>1 / x\<rceil>)")
  show "wf (measure (\<lambda>(b, x::real). nat \<lceil>x\<rceil> + b * nat \<lceil>1 / x\<rceil>))" by simp
next
  fix b :: nat and x :: real
  assume a: "\<not> (x \<le> 0 \<or> b < 2)" "real b \<le> x"
  then have b: "2 \<le> b" and x: "2 \<le> x" "0 < x" by auto
  have "\<lceil>x / real b\<rceil> < \<lceil>x\<rceil>" using x b by (intro ceiling_div_less) auto
  moreover have "0 < \<lceil>x\<rceil>" using x by simp
  ultimately have 1: "nat \<lceil>x / real b\<rceil> < nat \<lceil>x\<rceil>" by linarith
  have "0 < 1 / (x / real b)" "1 / (x / real b) \<le> 1" using a x b by simp_all
  then have "\<lceil>1 / (x / real b)\<rceil> = 1" by (simp add: ceiling_eq_iff)
  then have 2: "nat \<lceil>1 / (x / real b)\<rceil> = 1" by simp
  have "0 < 1 / x" "1 / x \<le> 1" using x by simp_all
  then have "\<lceil>1 / x\<rceil> = 1" by (simp add: ceiling_eq_iff)
  then have 3: "nat \<lceil>1 / x\<rceil> = 1" by simp
  show "((b, x / real b), (b, x)) \<in> measure (\<lambda>(b, x). nat \<lceil>x\<rceil> + b * nat \<lceil>1 / x\<rceil>)"
    unfolding in_measure prod.case 2 3 using 1 by simp
next
  fix b :: nat and x :: real
  assume a: "\<not> (x \<le> 0 \<or> b < 2)" "\<not> real b \<le> x" "x < 1"
  then have b: "2 \<le> b" and x: "0 < x" by auto
  have y: "1 < 1 / x" using a x by simp
  have "real b * x \<le> real b" using a x by simp
  then have "\<lceil>real b * x\<rceil> \<le> int b" by (simp add: ceiling_le_iff)
  then have n1: "nat \<lceil>real b * x\<rceil> \<le> b" by linarith
  have "\<lceil>x\<rceil> = 1" using a x by (simp add: ceiling_eq_iff)
  then have n0: "nat \<lceil>x\<rceil> = 1" by simp
  have "\<lceil>1 / x / real b\<rceil> < \<lceil>1 / x\<rceil>" using y b by (rule ceiling_div_less)
  then have "\<lceil>1 / (real b * x)\<rceil> < \<lceil>1 / x\<rceil>" by (simp add: mult.commute)
  moreover have "0 < \<lceil>1 / x\<rceil>" using x by simp
  ultimately have n2: "nat \<lceil>1 / (real b * x)\<rceil> < nat \<lceil>1 / x\<rceil>" by linarith
  then have "Suc (nat \<lceil>1 / (real b * x)\<rceil>) \<le> nat \<lceil>1 / x\<rceil>" by linarith
  then have "b * Suc (nat \<lceil>1 / (real b * x)\<rceil>) \<le> b * nat \<lceil>1 / x\<rceil>"
    by (rule mult_le_mono2)
  then have "b + b * nat \<lceil>1 / (real b * x)\<rceil> \<le> b * nat \<lceil>1 / x\<rceil>" by simp
  then show "((b, real b * x), (b, x)) \<in> measure (\<lambda>(b, x). nat \<lceil>x\<rceil> + b * nat \<lceil>1 / x\<rceil>)"
    unfolding in_measure prod.case n0 using n1 by linarith
qed

declare ilog.simps [simp del]

definition round_even :: "real \<Rightarrow> int" where
  "round_even q =
     (let f = \<lfloor>q\<rfloor>; r = q - of_int f
      in if r < 1 / 2 then f else if 1 / 2 < r then f + 1 else if even f then f else f + 1)"

definition fl :: "real \<Rightarrow> number" where
  "fl x =
     (if x = 0 then Fin 0
      else let e = max (ilog 2 \<bar>x\<bar> - 52) (- 1074);
               v = of_int (round_even (\<bar>x\<bar> / 2 powi e)) * 2 powi e
           in if 2 ^ 1024 \<le> v then (if x < 0 then NInf else PInf)
              else Fin (if x < 0 then - v else v))"

text \<open>
  \<^verbatim>\<open>a * b\<close> and \<^verbatim>\<open>a / b\<close>; \<^verbatim>\<open>Math.floor\<close>, \<^verbatim>\<open>Math.ceil\<close>, and \<^verbatim>\<open>Math.pow\<close> on
  non-negative integer arguments (the correctly rounded power: exact whenever the power is a
  double, as \<open>10 ^ 6\<close> is).
\<close>

definition times_num :: "number \<Rightarrow> number \<Rightarrow> number" where
  "times_num a b =
     (case (a, b) of
        (NaN, _) \<Rightarrow> NaN
      | (_, NaN) \<Rightarrow> NaN
      | (Fin x, Fin y) \<Rightarrow> fl (x * y)
      | (Fin x, PInf) \<Rightarrow> (if x = 0 then NaN else if 0 < x then PInf else NInf)
      | (Fin x, NInf) \<Rightarrow> (if x = 0 then NaN else if 0 < x then NInf else PInf)
      | (PInf, Fin y) \<Rightarrow> (if y = 0 then NaN else if 0 < y then PInf else NInf)
      | (NInf, Fin y) \<Rightarrow> (if y = 0 then NaN else if 0 < y then NInf else PInf)
      | (PInf, PInf) \<Rightarrow> PInf
      | (NInf, NInf) \<Rightarrow> PInf
      | (PInf, NInf) \<Rightarrow> NInf
      | (NInf, PInf) \<Rightarrow> NInf)"

definition divide_num :: "number \<Rightarrow> number \<Rightarrow> number" where
  "divide_num a b =
     (case (a, b) of
        (NaN, _) \<Rightarrow> NaN
      | (_, NaN) \<Rightarrow> NaN
      | (Fin x, Fin y) \<Rightarrow>
          (if y = 0 then (if x = 0 then NaN else if 0 < x then PInf else NInf) else fl (x / y))
      | (Fin x, _) \<Rightarrow> Fin 0
      | (PInf, Fin y) \<Rightarrow> (if 0 \<le> y then PInf else NInf)
      | (NInf, Fin y) \<Rightarrow> (if 0 \<le> y then NInf else PInf)
      | (_, _) \<Rightarrow> NaN)"

definition Math_floor :: "number \<Rightarrow> number" where
  "Math_floor a = (case a of Fin x \<Rightarrow> Fin (of_int \<lfloor>x\<rfloor>) | _ \<Rightarrow> a)"

definition Math_ceil :: "number \<Rightarrow> number" where
  "Math_ceil a = (case a of Fin x \<Rightarrow> Fin (of_int \<lceil>x\<rceil>) | _ \<Rightarrow> a)"

definition Math_pow :: "nat \<Rightarrow> nat \<Rightarrow> number" where
  "Math_pow b n = fl (of_nat b ^ n)"

subsection \<open>Printing a number\<close>

text \<open>
  \<^verbatim>\<open>Number.prototype.toString\<close> prints the shortest decimal numeral that reads back as the
  same double: \<open>shortest x\<close> is its digit string \<open>s\<close> (as an integer of \<open>k\<close> digits, \<open>k\<close>
  as small as possible, at most 17) and the position \<open>n\<close> of the decimal point, so that
  \<open>fl (s * 10 ^ (n - k)) = x\<close>; \<open>layout\<close> writes them as the language prescribes (plain
  digits for \<open>- 6 < n \<le> 21\<close>, exponent notation outside). For an integer of magnitude at most
  \<open>2 ^ 53\<close> these are all its digits, which is what \<open>Number_toString\<close> prints directly.
  \<^verbatim>\<open>toFixed(f)\<close> prints the integer nearest to \<open>x * 10 ^ f\<close> (the larger one on a tie) with
  the point before its last \<open>f\<close> digits, and defers to \<^verbatim>\<open>toString\<close> from \<open>10 ^ 21\<close> on.
\<close>

definition candidates :: "real \<Rightarrow> nat \<Rightarrow> (int \<times> int) list" where
  "candidates x k =
     (let n = ilog 10 x + 1;
          lo = \<lfloor>x / 10 powi (n - int k)\<rfloor>
      in filter (\<lambda>(s, n). fl (of_int s * 10 powi (n - int k)) = Fin x)
           [(lo, n), if lo + 1 = 10 ^ k then (10 ^ (k - 1), n + 1) else (lo + 1, n)])"

definition closest :: "real \<Rightarrow> nat \<Rightarrow> (int \<times> int) list \<Rightarrow> int \<times> int" where
  "closest x k cs =
     (case cs of
        [] \<Rightarrow> (0, 0)
      | [c] \<Rightarrow> c
      | (s, n) # (s', n') # _ \<Rightarrow>
          (let d = \<bar>of_int s * 10 powi (n - int k) - x\<bar>;
               d' = \<bar>of_int s' * 10 powi (n' - int k) - x\<bar>
           in if d < d' \<or> (d = d' \<and> even s) then (s, n) else (s', n')))"

definition shortest :: "real \<Rightarrow> int \<times> int" where
  "shortest x =
     (case List.find (\<lambda>k. candidates x k \<noteq> []) [1..<18] of
        None \<Rightarrow> (0, 0)
      | Some k \<Rightarrow> closest x k (candidates x k))"

definition layout :: "string \<Rightarrow> int \<Rightarrow> string" where
  "layout ds n =
     (let k = int (length ds) in
      if k \<le> n \<and> n \<le> 21 then ds @ replicate (nat (n - k)) (CHR ''0'')
      else if 0 < n \<and> n \<le> 21 then take (nat n) ds @ ''.'' @ drop (nat n) ds
      else if - 6 < n \<and> n \<le> 0 then ''0.'' @ replicate (nat (- n)) (CHR ''0'') @ ds
      else let e = (if n - 1 < 0 then ''-'' else ''+'') @ show_nat (nat \<bar>n - 1\<bar>)
           in if k = 1 then ds @ ''e'' @ e else take 1 ds @ ''.'' @ drop 1 ds @ ''e'' @ e)"

definition Number_toString :: "number \<Rightarrow> string" where
  "Number_toString a =
     (case a of
        NaN \<Rightarrow> ''NaN''
      | PInf \<Rightarrow> ''Infinity''
      | NInf \<Rightarrow> ''-Infinity''
      | Fin x \<Rightarrow>
          (if x = 0 then ''0''
           else (if x < 0 then ''-'' else []) @
             (if of_int \<lfloor>\<bar>x\<bar>\<rfloor> = \<bar>x\<bar> \<and> \<bar>x\<bar> \<le> 2 ^ 53 then show_nat (nat \<lfloor>\<bar>x\<bar>\<rfloor>)
              else case shortest \<bar>x\<bar> of (s, n) \<Rightarrow> layout (show_nat (nat s)) n)))"

definition Number_toFixed :: "number \<Rightarrow> nat \<Rightarrow> string" where
  "Number_toFixed a f =
     (case a of
        Fin x \<Rightarrow>
          (if x < 0 then ''-'' else []) @
          (if 10 ^ 21 \<le> \<bar>x\<bar> then Number_toString (Fin \<bar>x\<bar>)
           else let m = show_nat (nat \<lfloor>\<bar>x\<bar> * 10 ^ f + 1 / 2\<rfloor>);
                    m = (if f \<noteq> 0 \<and> length m \<le> f
                         then replicate (f + 1 - length m) (CHR ''0'') @ m else m)
                in if f \<noteq> 0
                   then take (length m - f) m @ ''.'' @ drop (length m - f) m else m)
      | _ \<Rightarrow> Number_toString a)"

subsection \<open>Reading a number\<close>

text \<open>
  \<^verbatim>\<open>parseFloat\<close> skips leading white space and reads the longest prefix that is a decimal
  literal (sign, digits, fraction, exponent, or \<^verbatim>\<open>Infinity\<close>); \<^verbatim>\<open>parseInt\<close> without a radix
  reads a sign, an optional \<^verbatim>\<open>0x\<close> and the digits of that radix. Both answer NaN when no digit
  was read and round the value read to a double. Strings are byte strings here, so only ASCII
  white space is skipped.
\<close>

fun index_of :: "'a \<Rightarrow> 'a list \<Rightarrow> nat option" where
  "index_of c [] = None"
| "index_of c (x # xs) = (if c = x then Some 0 else map_option Suc (index_of c xs))"

definition digit_of :: "char \<Rightarrow> nat option" where
  "digit_of c =
     (case index_of c ''0123456789abcdefghijklmnopqrstuvwxyz'' of
        Some d \<Rightarrow> Some d
      | None \<Rightarrow> index_of c ''0123456789ABCDEFGHIJKLMNOPQRSTUVWXYZ'')"

definition is_digit :: "nat \<Rightarrow> char \<Rightarrow> bool" where
  "is_digit R c = (case digit_of c of Some d \<Rightarrow> d < R | None \<Rightarrow> False)"

definition digits_val :: "nat \<Rightarrow> string \<Rightarrow> nat" where
  "digits_val R ds = foldl (\<lambda>acc c. acc * R + (case digit_of c of Some d \<Rightarrow> d | None \<Rightarrow> 0)) 0 ds"

definition is_space :: "char \<Rightarrow> bool" where
  "is_space c = (c \<in> set [CHR '' '', CHR 0x09, CHR 0x0A, CHR 0x0B, CHR 0x0C, CHR 0x0D])"

definition strip_sign :: "string \<Rightarrow> bool \<times> string" where
  "strip_sign s =
     (case s of
        c # r \<Rightarrow> (if c = CHR ''-'' then (True, r) else if c = CHR ''+'' then (False, r)
                  else (False, s))
      | [] \<Rightarrow> (False, s))"

definition exponent_part :: "string \<Rightarrow> int" where
  "exponent_part s =
     (case s of
        c # r \<Rightarrow>
          (if c = CHR ''e'' \<or> c = CHR ''E''
           then (case strip_sign r of (neg, t) \<Rightarrow>
                   (let ds = takeWhile (is_digit 10) t
                    in if ds = [] then 0
                       else if neg then - int (digits_val 10 ds) else int (digits_val 10 ds)))
           else 0)
      | [] \<Rightarrow> 0)"

definition parseFloat :: "string \<Rightarrow> number" where
  "parseFloat string =
     (case strip_sign (dropWhile is_space string) of (neg, s) \<Rightarrow>
        if take 8 s = ''Infinity'' then (if neg then NInf else PInf)
        else
          let ip = takeWhile (is_digit 10) s;
              r = dropWhile (is_digit 10) s;
              dot = (r \<noteq> [] \<and> hd r = CHR ''.'');
              fp = (if dot then takeWhile (is_digit 10) (tl r) else []);
              r' = (if dot then dropWhile (is_digit 10) (tl r) else r)
          in if ip = [] \<and> fp = [] then NaN
             else let v = real (digits_val 10 (ip @ fp)) *
                            10 powi (exponent_part r' - int (length fp))
                  in fl (if neg then - v else v))"

definition parseInt :: "string \<Rightarrow> number" where
  "parseInt string =
     (case strip_sign (dropWhile is_space string) of (neg, s) \<Rightarrow>
        let hex = (take 2 s = ''0x'' \<or> take 2 s = ''0X'');
            R = (if hex then 16 else 10);
            z = takeWhile (is_digit R) (if hex then drop 2 s else s)
        in if z = [] then NaN
           else fl (if neg then - real (digits_val R z) else real (digits_val R z)))"

subsection \<open>Strings, objects and the process environment\<close>

text \<open>
  \<^verbatim>\<open>process.env.X\<close> and \<^verbatim>\<open>process.argv[n]\<close> are a string or \<^verbatim>\<open>undefined\<close>; the empty string
  and \<^verbatim>\<open>undefined\<close> are the falsy ones, so \<^verbatim>\<open>a || b\<close> is \<open>a\<close> when \<open>a\<close> is a non-empty string
  and \<open>b\<close> otherwise.
\<close>

type_synonym env = "string \<Rightarrow> string option"

definition truthy :: "string option \<Rightarrow> bool" where
  "truthy v = (case v of Some s \<Rightarrow> s \<noteq> [] | None \<Rightarrow> False)"

definition or_else :: "string option \<Rightarrow> string option \<Rightarrow> string option" where
  "or_else a b = (if truthy a then a else b)"

definition or_default :: "string option \<Rightarrow> string \<Rightarrow> string" where
  "or_default a d = (case a of Some s \<Rightarrow> (if s = [] then d else s) | None \<Rightarrow> d)"

definition argv_at :: "string list \<Rightarrow> nat \<Rightarrow> string option" where
  "argv_at argv n = (if n < length argv then Some (argv ! n) else None)"

fun join :: "string \<Rightarrow> string list \<Rightarrow> string" where
  "join sep [] = []"
| "join sep [x] = x"
| "join sep (x # y # ys) = x @ sep @ join sep (y # ys)"

fun string_includes :: "string \<Rightarrow> string \<Rightarrow> bool" where
  "string_includes [] t = (t = [])"
| "string_includes (c # cs) t = (take (length t) (c # cs) = t \<or> string_includes cs t)"

definition toLowerCase :: "string \<Rightarrow> string" where
  "toLowerCase s =
     map (\<lambda>c. if (65::nat) \<le> of_char c \<and> of_char c \<le> (90::nat)
              then char_of (of_char c + (32::nat)) else c) s"

definition nl :: string where
  "nl = [CHR 0x0A]"

definition rule80 :: string where
  "rule80 = replicate 80 (CHR ''='')"

text \<open>
  JSON values, as contract messages are built and as \<^verbatim>\<open>JSON.parse\<close> returns them; an object
  keeps its keys in insertion order. \<open>js_truthy\<close> is the test of an \<^verbatim>\<open>if\<close>, \<open>js_String\<close> the
  conversion a template literal applies.
\<close>

datatype json =
    JNull | JBool bool | JNum number | JStr string | JArr "json list" | JObj "(string \<times> json) list"

definition js_truthy :: "json \<Rightarrow> bool" where
  "js_truthy v =
     (case v of
        JNull \<Rightarrow> False
      | JBool b \<Rightarrow> b
      | JNum n \<Rightarrow> n \<noteq> NaN \<and> n \<noteq> Fin 0
      | JStr s \<Rightarrow> s \<noteq> []
      | _ \<Rightarrow> True)"

fun js_String :: "json \<Rightarrow> string" where
  "js_String JNull = ''null''"
| "js_String (JBool b) = (if b then ''true'' else ''false'')"
| "js_String (JNum n) = Number_toString n"
| "js_String (JStr s) = s"
| "js_String (JArr xs) = join '','' (map (\<lambda>x. if x = JNull then [] else js_String x) xs)"
| "js_String (JObj kvs) = ''[object Object]''"

section \<open>Configuration (\<^verbatim>\<open>utils/config.js\<close>)\<close>

definition XION_CONFIG_chainId :: string where
  "XION_CONFIG_chainId = ''xion-testnet-2''"

definition XION_CONFIG_rpcEndpoint :: string where
  "XION_CONFIG_rpcEndpoint = ''https://rpc.xion-testnet-2.burnt.com:443''"

definition XION_CONFIG_addressPrefix :: string where
  "XION_CONFIG_addressPrefix = ''xion''"

definition XION_CONFIG_gasPrice :: string where
  "XION_CONFIG_gasPrice = ''0.025uxion''"

definition XION_CONFIG_denom :: string where
  "XION_CONFIG_denom = ''uxion''"

definition XION_CONFIG_decimals :: nat where
  "XION_CONFIG_decimals = 6"

definition XION_CONFIG_cw721MetadataOnchainCodeId :: nat where
  "XION_CONFIG_cw721MetadataOnchainCodeId = 525"

definition XION_CONFIG_faucet_discord :: string where
  "XION_CONFIG_faucet_discord = ''https://discord.gg/burnt''"

definition XION_CONFIG_faucet_command :: string where
  "XION_CONFIG_faucet_command = ''/faucet [your-xion-address]''"

section \<open>The client library and the chain, as the scripts see them\<close>

text \<open>
  What a run prints and which calls it makes on the client library, in order. Every library
  call is recorded with its arguments; \<open>Exit\<close> is \<^verbatim>\<open>process.exit\<close>.
\<close>

record coin =
  coin_denom :: string
  coin_amount :: string

datatype call =
    FromMnemonic string string
  | GetAccounts
  | ConnectWithSigner string string
  | Connect string
  | GetBalance string string
  | Instantiate string nat json string string "string option"
  | Execute string string json string string "coin list"
  | QueryContractSmart string json
  | Disconnect

datatype event = Log string | LogError string | Call call | Exit nat

text \<open>
  The answers of the library are parameters of the model: each is the value returned or the
  error thrown. A wallet is opaque (\<open>'w\<close>) and has at least one account, its first. A contract
  query is answered by \<^verbatim>\<open>queryContractSmart\<close>; \<open>owner_of\<close>, \<open>nft_info\<close> and \<open>tokens\<close> are its
  answers read as the CW721 interface shapes them. \<open>stack\<close> is the \<^verbatim>\<open>stack\<close> property the
  engine gave an error; \<open>JSON_parse\<close> answers \<open>None\<close> where \<^verbatim>\<open>JSON.parse\<close> throws.
\<close>

record account =
  address :: string

datatype tx_event = TxEvent string "(string \<times> string) list"

datatype tx_log = TxLog "tx_event list"

record tx_result =
  transactionHash :: string
  gasUsed :: nat
  gasWanted :: nat
  height :: nat
  logs :: "tx_log list"

record instantiate_result = tx_result +
  contractAddress :: string

record approval =
  spender :: string
  expires :: json

record owner_of_response =
  owner :: string
  approvals :: "approval list"

record nft_info_response =
  token_uri :: "string option"
  extension :: "(string \<times> json) list option"

record tokens_response =
  tokens :: "string list"

record 'w runtime =
  fromMnemonic :: "string \<Rightarrow> string \<Rightarrow> error + 'w"
  getAccounts :: "'w \<Rightarrow> error + account \<times> account list"
  connectWithSigner :: "string \<Rightarrow> 'w \<Rightarrow> string \<Rightarrow> error + unit"
  connect :: "string \<Rightarrow> error + unit"
  getBalance :: "string \<Rightarrow> string \<Rightarrow> error + coin"
  instantiate :: "string \<Rightarrow> nat \<Rightarrow> json \<Rightarrow> string \<Rightarrow> string option \<Rightarrow> error + instantiate_result"
  execute :: "string \<Rightarrow> string \<Rightarrow> json \<Rightarrow> string \<Rightarrow> coin list \<Rightarrow> error + tx_result"
  owner_of :: "string \<Rightarrow> json \<Rightarrow> error + owner_of_response"
  nft_info :: "string \<Rightarrow> json \<Rightarrow> error + nft_info_response"
  tokens_of :: "string \<Rightarrow> json \<Rightarrow> error + tokens_response"
  stack :: "error \<Rightarrow> string option"
  JSON_parse :: "string \<Rightarrow> json option"
  JSON_stringify :: "json \<Rightarrow> string"

text \<open>
  A piece of a script: what it printed and called, and the value it produced or the error it
  threw. \<open>bind\<close> is sequencing (\<^verbatim>\<open>await\<close> one call, then go on), \<open>emit\<close> prints before going
  on, \<open>run_try\<close> is a script's \<^verbatim>\<open>try { ... } catch (error) { ... }\<close>.
\<close>

type_synonym 'a step = "event list \<times> (error + 'a)"

definition ret :: "'a \<Rightarrow> 'a step" where
  "ret a = ([], Inr a)"

definition throw :: "error \<Rightarrow> 'a step" where
  "throw e = ([], Inl e)"

definition bind :: "'a step \<Rightarrow> ('a \<Rightarrow> 'b step) \<Rightarrow> 'b step" where
  "bind m f =
     (case m of
        (evs, Inl e) \<Rightarrow> (evs, Inl e)
      | (evs, Inr a) \<Rightarrow> (case f a of (evs', r) \<Rightarrow> (evs @ evs', r)))"

definition emit :: "event list \<Rightarrow> 'a step \<Rightarrow> 'a step" where
  "emit evs m = (case m of (evs', r) \<Rightarrow> (evs @ evs', r))"

definition call :: "call \<Rightarrow> error + 'a \<Rightarrow> 'a step" where
  "call c answer = ([Call c], answer)"

definition run_try :: "unit step \<Rightarrow> (error \<Rightarrow> event list) \<Rightarrow> event list" where
  "run_try body handler =
     (case body of (evs, Inl e) \<Rightarrow> evs @ handler e | (evs, Inr u) \<Rightarrow> evs)"

section \<open>The helpers (\<^verbatim>\<open>utils/helpers.js\<close>)\<close>

subsection \<open>Wallet and connections\<close>

definition createWalletFromMnemonic :: "'w runtime \<Rightarrow> string \<Rightarrow> 'w step" where
  "createWalletFromMnemonic rt mnemonic =
     call (FromMnemonic mnemonic XION_CONFIG_addressPrefix)
       (fromMnemonic rt mnemonic XION_CONFIG_addressPrefix)"

definition loadWallet :: "'w runtime \<Rightarrow> env \<Rightarrow> 'w step" where
  "loadWallet rt env =
     (let mnemonic = env ''MNEMONIC'' in
      if \<not> truthy mnemonic
      then throw (Error ''MNEMONIC not found in environment variables. Please set it in .env file'')
      else createWalletFromMnemonic rt (the mnemonic))"

definition getFirstAccount :: "'w runtime \<Rightarrow> 'w \<Rightarrow> account step" where
  "getFirstAccount rt wallet = bind (call GetAccounts (getAccounts rt wallet)) (\<lambda>accounts. ret (fst accounts))"

definition connectQueryClient :: "'w runtime \<Rightarrow> unit step" where
  "connectQueryClient rt = call (Connect XION_CONFIG_rpcEndpoint) (connect rt XION_CONFIG_rpcEndpoint)"

definition connectSigningClient :: "'w runtime \<Rightarrow> 'w \<Rightarrow> unit step" where
  "connectSigningClient rt wallet =
     call (ConnectWithSigner XION_CONFIG_rpcEndpoint XION_CONFIG_gasPrice)
       (connectWithSigner rt XION_CONFIG_rpcEndpoint wallet XION_CONFIG_gasPrice)"

definition queryContract :: "(string \<Rightarrow> json \<Rightarrow> error + 'a) \<Rightarrow> string \<Rightarrow> json \<Rightarrow> 'a step" where
  "queryContract answer contractAddress' queryMsg =
     call (QueryContractSmart contractAddress' queryMsg) (answer contractAddress' queryMsg)"

definition executeContract ::
  "'w runtime \<Rightarrow> string \<Rightarrow> string \<Rightarrow> json \<Rightarrow> string option \<Rightarrow> coin list option \<Rightarrow> tx_result step" where
  "executeContract rt senderAddress contractAddress' executeMsg memo funds =
     (let memo = (case memo of None \<Rightarrow> [] | Some m \<Rightarrow> m);
          funds = (case funds of None \<Rightarrow> [] | Some f \<Rightarrow> f)
      in call (Execute senderAddress contractAddress' executeMsg ''auto'' memo funds)
           (execute rt senderAddress contractAddress' executeMsg memo funds))"

definition instantiateContract ::
  "'w runtime \<Rightarrow> string \<Rightarrow> nat \<Rightarrow> json \<Rightarrow> string \<Rightarrow> string option \<Rightarrow> instantiate_result step" where
  "instantiateContract rt senderAddress codeId instantiateMsg label admin =
     (let admin = (case admin of None \<Rightarrow> [] | Some a \<Rightarrow> a);
          admin_opt = (if admin = [] then None else Some admin)
      in call (Instantiate senderAddress codeId instantiateMsg label ''auto'' admin_opt)
           (instantiate rt senderAddress codeId instantiateMsg label admin_opt))"

subsection \<open>The transaction poller\<close>

text \<open>
  \<^verbatim>\<open>client.getTx(hash)\<close> answers differently as the chain indexes the transaction, so the
  poller's client is the sequence of its answers: the answer to the call made when \<open>n\<close> calls
  were made before it. An answer is a rejection (the awaited promise throws), \<^verbatim>\<open>null\<close> or a
  receipt. The poller's observable state is the number of lookups made and the milliseconds
  slept.
\<close>

type_synonym 'r lookup = "nat \<Rightarrow> string \<Rightarrow> error + 'r option"

record poll_state =
  calls :: nat
  slept :: nat

definition getTransaction ::
  "'r lookup \<Rightarrow> string \<Rightarrow> poll_state \<Rightarrow> (error + 'r option) \<times> poll_state" where
  "getTransaction client txHash s = (client (calls s) txHash, s\<lparr>calls := Suc (calls s)\<rparr>)"

definition sleep :: "nat \<Rightarrow> poll_state \<Rightarrow> poll_state" where
  "sleep delayMs s = s\<lparr>slept := slept s + delayMs\<rparr>"

definition not_found_after :: "string \<Rightarrow> nat \<Rightarrow> error" where
  "not_found_after txHash maxAttempts =
     Error (''Transaction '' @ txHash @ '' not found after '' @ show_nat maxAttempts @ '' attempts'')"

text \<open>The \<^verbatim>\<open>for (let i = 0; i < maxAttempts; i++)\<close> loop, entered at counter \<open>i\<close>.\<close>

function waitForTransaction_from ::
  "'r lookup \<Rightarrow> string \<Rightarrow> nat \<Rightarrow> nat \<Rightarrow> nat \<Rightarrow> poll_state \<Rightarrow> (error + 'r) \<times> poll_state" where
  "waitForTransaction_from client txHash maxAttempts delayMs i s =
     (if i < maxAttempts then
        (case getTransaction client txHash s of
           (Inl e, s') \<Rightarrow> (Inl e, s')
         | (Inr (Some tx), s') \<Rightarrow> (Inr tx, s')
         | (Inr None, s') \<Rightarrow>
             waitForTransaction_from client txHash maxAttempts delayMs (Suc i) (sleep delayMs s'))
      else (Inl (not_found_after txHash maxAttempts), s))"
  by pat_completeness auto
termination
  by (relation "measure (\<lambda>(client, txHash, maxAttempts, delayMs, i, s). maxAttempts - i)") auto

declare waitForTransaction_from.simps [simp del]

text \<open>
  The exported function: an omitted (\<^verbatim>\<open>undefined\<close>) third or fourth argument takes the
  default of the parameter list, \<^verbatim>\<open>maxAttempts = 20, delayMs = 1000\<close>.
\<close>

definition waitForTransaction ::
  "'r lookup \<Rightarrow> string \<Rightarrow> nat option \<Rightarrow> nat option \<Rightarrow> poll_state \<Rightarrow> (error + 'r) \<times> poll_state" where
  "waitForTransaction client txHash maxAttempts delayMs s =
     waitForTransaction_from client txHash
       (case maxAttempts of None \<Rightarrow> 20 | Some n \<Rightarrow> n)
       (case delayMs of None \<Rightarrow> 1000 | Some d \<Rightarrow> d) 0 s"

subsection \<open>Amounts and fees\<close>

text \<open>An amount is passed as a string or as a number (\<^verbatim>\<open>typeof amount === "string"\<close>).\<close>

datatype amount = Str string | Num number

definition formatXionAmount :: "amount \<Rightarrow> string" where
  "formatXionAmount amount =
     (let numAmount = (case amount of Str s \<Rightarrow> parseInt s | Num n \<Rightarrow> n)
      in Number_toFixed (divide_num numAmount (Math_pow 10 XION_CONFIG_decimals)) 6)"

definition parseXionAmount :: "amount \<Rightarrow> string" where
  "parseXionAmount amount =
     (let numAmount = (case amount of Str s \<Rightarrow> parseFloat s | Num n \<Rightarrow> n)
      in Number_toString (Math_floor (times_num numAmount (Math_pow 10 XION_CONFIG_decimals))))"

record fee =
  fee_amount :: "coin list"
  fee_gas :: string

definition calculateFee :: "number \<Rightarrow> fee" where
  "calculateFee gasAmount =
     (let gasPrice = parseFloat XION_CONFIG_gasPrice;
          feeAmount = Math_ceil (times_num gasAmount gasPrice)
      in \<lparr>fee_amount = [\<lparr>coin_denom = XION_CONFIG_denom, coin_amount = Number_toString feeAmount\<rparr>],
          fee_gas = Number_toString gasAmount\<rparr>)"

subsection \<open>Reporting\<close>

definition printTxResult :: "'a tx_result_scheme \<Rightarrow> event list" where
  "printTxResult result =
     [Log (nl @ ''Transaction successful!''),
      Log (''Transaction Hash: '' @ transactionHash result),
      Log (''Gas Used: '' @ show_nat (gasUsed result)),
      Log (''Gas Wanted: '' @ show_nat (gasWanted result)),
      Log (''Height: '' @ show_nat (height result))] @
     (if logs result \<noteq> []
      then Log (nl @ ''Events:'') #
           concat (map (\<lambda>log. case log of TxLog events \<Rightarrow>
             concat (map (\<lambda>event. case event of TxEvent type attributes \<Rightarrow>
               Log (''  '' @ type @ '':'') #
               map (\<lambda>(key, val). Log (''    '' @ key @ '': '' @ val)) attributes) events))
             (logs result))
      else [])"

definition handleError :: "'w runtime \<Rightarrow> error \<Rightarrow> event list" where
  "handleError rt error =
     [LogError (nl @ ''Error occurred:''),
      LogError (case error of Error message \<Rightarrow> message)] @
     (if truthy (stack rt error)
      then [LogError (nl @ ''Stack trace:''), LogError (the (stack rt error))] else []) @
     [Exit 1]"

section \<open>The command scripts\<close>

subsection \<open>Parameters read from the environment and the command line\<close>

text \<open>One definition for each \<^verbatim>\<open>const\<close> a script reads from both sources, named after both.\<close>

definition mintToken_TOKEN_ID :: "env \<Rightarrow> string list \<Rightarrow> string" where
  "mintToken_TOKEN_ID env argv = or_default (or_else (env ''TOKEN_ID'') (argv_at argv 2)) ''1''"

definition mintToken_OWNER_ADDRESS :: "env \<Rightarrow> string list \<Rightarrow> string option" where
  "mintToken_OWNER_ADDRESS env argv = or_else (env ''OWNER_ADDRESS'') (argv_at argv 3)"

definition mintToken_TOKEN_URI :: "env \<Rightarrow> string list \<Rightarrow> string" where
  "mintToken_TOKEN_URI env argv =
     or_default (or_else (env ''TOKEN_URI'') (argv_at argv 4)) ''ipfs://QmExample...''"

definition transferGas_RECIPIENT :: "env \<Rightarrow> string list \<Rightarrow> string option" where
  "transferGas_RECIPIENT env argv = or_else (env ''RECIPIENT'') (argv_at argv 2)"

definition transferGas_AMOUNT :: "env \<Rightarrow> string list \<Rightarrow> string option" where
  "transferGas_AMOUNT env argv = or_else (env ''AMOUNT'') (argv_at argv 3)"

definition monitorTransaction_TX_HASH :: "env \<Rightarrow> string list \<Rightarrow> string option" where
  "monitorTransaction_TX_HASH env argv = or_else (env ''TX_HASH'') (argv_at argv 2)"

definition monitorTransaction_WAIT_FOR_TX :: "env \<Rightarrow> string list \<Rightarrow> bool" where
  "monitorTransaction_WAIT_FOR_TX env argv =
     (env ''WAIT'' = Some ''true'' \<or> argv_at argv 3 = Some ''--wait'')"

definition verifyOwnership_TOKEN_ID :: "env \<Rightarrow> string list \<Rightarrow> string option" where
  "verifyOwnership_TOKEN_ID env argv = or_else (env ''TOKEN_ID'') (argv_at argv 2)"

definition verifyOwnership_EXPECTED_OWNER :: "env \<Rightarrow> string list \<Rightarrow> string option" where
  "verifyOwnership_EXPECTED_OWNER env argv = or_else (env ''EXPECTED_OWNER'') (argv_at argv 3)"

definition checkGasFee_TRANSACTION_TYPE :: "env \<Rightarrow> string list \<Rightarrow> string" where
  "checkGasFee_TRANSACTION_TYPE env argv =
     or_default (or_else (env ''TX_TYPE'') (argv_at argv 2)) ''mint''"

definition transferNFT_TOKEN_ID :: "env \<Rightarrow> string list \<Rightarrow> string option" where
  "transferNFT_TOKEN_ID env argv = or_else (env ''TOKEN_ID'') (argv_at argv 2)"

definition transferNFT_RECIPIENT :: "env \<Rightarrow> string list \<Rightarrow> string option" where
  "transferNFT_RECIPIENT env argv = or_else (env ''RECIPIENT'') (argv_at argv 3)"

definition signMessage_MESSAGE :: "env \<Rightarrow> string list \<Rightarrow> string option" where
  "signMessage_MESSAGE env argv = or_else (env ''MESSAGE'') (Some (join '' '' (drop 2 argv)))"

definition signTransaction_TX_TYPE :: "env \<Rightarrow> string list \<Rightarrow> string" where
  "signTransaction_TX_TYPE env argv =
     or_default (or_else (env ''TX_TYPE'') (argv_at argv 2)) ''send-tokens''"

definition signTransaction_OUTPUT_FILE :: "env \<Rightarrow> string list \<Rightarrow> string" where
  "signTransaction_OUTPUT_FILE env argv =
     or_default (or_else (env ''OUTPUT_FILE'') (argv_at argv 3)) ''signed-tx.json''"

subsection \<open>\<^verbatim>\<open>scripts/mint-token.js\<close>\<close>

definition toUpperCase :: "string \<Rightarrow> string" where
  "toUpperCase s =
     map (\<lambda>c. if (97::nat) \<le> of_char c \<and> of_char c \<le> (122::nat)
              then char_of (of_char c - (32::nat)) else c) s"

definition optional_field :: "string \<Rightarrow> string option \<Rightarrow> (string \<times> json) list" where
  "optional_field key v = (if truthy v then [(key, JStr (the v))] else [])"

definition mintToken :: "'w runtime \<Rightarrow> env \<Rightarrow> string list \<Rightarrow> event list" where
  "mintToken rt env argv =
     run_try
       (let CONTRACT_ADDRESS = env ''CONTRACT_ADDRESS'';
            TOKEN_ID = mintToken_TOKEN_ID env argv;
            OWNER_ADDRESS = mintToken_OWNER_ADDRESS env argv;
            TOKEN_URI = mintToken_TOKEN_URI env argv;
            TOKEN_NAME = or_default (env ''TOKEN_NAME'') (''NFT #'' @ TOKEN_ID);
            TOKEN_DESCRIPTION = or_default (env ''TOKEN_DESCRIPTION'') ''An NFT from my collection'';
            TOKEN_IMAGE = or_default (env ''TOKEN_IMAGE'') TOKEN_URI;
            METADATA_STORAGE = toLowerCase (or_default (env ''METADATA_STORAGE'') ''onchain'');
            TOKEN_ATTRIBUTES = env ''TOKEN_ATTRIBUTES''
        in emit [Log (''Minting new NFT...'' @ nl)]
          (if \<not> truthy CONTRACT_ADDRESS
           then emit
                  [LogError ''Error: CONTRACT_ADDRESS not set!'',
                   Log ''   Please set CONTRACT_ADDRESS in your .env file'',
                   Log ''   Or run: export CONTRACT_ADDRESS=xion1...'']
                  (ret ())
           else
             emit [Log ''Loading wallet from environment...'']
            (bind (loadWallet rt env) (\<lambda>wallet.
             bind (getFirstAccount rt wallet) (\<lambda>account.
             emit [Log (''Wallet loaded: '' @ address account @ nl),
                   Log ''Connecting to XION network...'']
            (bind (connectSigningClient rt wallet) (\<lambda>client.
             let ownerAddress = or_default OWNER_ADDRESS (address account);
                 onchain = (METADATA_STORAGE = ''onchain'');
                 parsed = (if onchain \<and> truthy TOKEN_ATTRIBUTES
                           then JSON_parse rt (the TOKEN_ATTRIBUTES) else None);
                 extension' =
                   (if onchain
                    then [(''name'', JStr TOKEN_NAME), (''description'', JStr TOKEN_DESCRIPTION),
                          (''image'', JStr TOKEN_IMAGE)] @
                         (case parsed of Some v \<Rightarrow> [(''attributes'', v)] | None \<Rightarrow> []) @
                         optional_field ''animation_url'' (env ''TOKEN_ANIMATION_URL'') @
                         optional_field ''external_url'' (env ''TOKEN_EXTERNAL_URL'') @
                         optional_field ''background_color'' (env ''TOKEN_BACKGROUND_COLOR'')
                    else [(''image'', JStr TOKEN_IMAGE)]);
                 storageInfo =
                   (if onchain then ''ON-CHAIN (Full metadata stored on blockchain)''
                    else ''OFF-CHAIN (Metadata stored on IPFS: '' @ TOKEN_URI @ '')'');
                 mintMsg =
                   JObj [(''mint'', JObj [(''token_id'', JStr TOKEN_ID), (''owner'', JStr ownerAddress),
                                         (''token_uri'', JStr TOKEN_URI),
                                         (''extension'', JObj extension')])]
             in
             emit
               ([Log (''Connected to '' @ XION_CONFIG_chainId @ nl)] @
                (if onchain \<and> truthy TOKEN_ATTRIBUTES \<and> parsed = None
                 then [Log ''Warning: Could not parse TOKEN_ATTRIBUTES JSON, skipping attributes'']
                 else []) @
                [Log ''NFT Details:'',
                 Log (''   Contract: '' @ the CONTRACT_ADDRESS),
                 Log (''   Token ID: '' @ TOKEN_ID),
                 Log (''   Owner: '' @ ownerAddress),
                 Log (''   Storage Mode: '' @ toUpperCase METADATA_STORAGE),
                 Log (''   '' @ storageInfo)] @
                (if onchain
                 then [Log (''   Name: '' @ TOKEN_NAME),
                       Log (''   Description: '' @ TOKEN_DESCRIPTION),
                       Log (''   Image: '' @ TOKEN_IMAGE)] @
                      (case parsed of
                         Some v \<Rightarrow>
                           (if js_truthy v
                            then [Log (''   Attributes: '' @ JSON_stringify rt v)] else [])
                       | None \<Rightarrow> [])
                 else []) @
                [Log (''   Token URI: '' @ TOKEN_URI),
                 Log (nl @ ''Minting NFT...'')])
            (bind (executeContract rt (address account) (the CONTRACT_ADDRESS) mintMsg
                     (Some (''Minted NFT #'' @ TOKEN_ID)) None) (\<lambda>result.
             emit
               ([Log (nl @ rule80),
                 Log ''NFT MINTED SUCCESSFULLY!'',
                 Log rule80,
                 Log (''Token ID: '' @ TOKEN_ID),
                 Log (''Owner: '' @ ownerAddress),
                 Log (''Contract: '' @ the CONTRACT_ADDRESS),
                 Log (''Storage: '' @ toUpperCase METADATA_STORAGE),
                 Log (''Explorer: https://www.mintscan.io/xion-testnet/tx/'' @ transactionHash result),
                 Log rule80] @
                printTxResult result @
                [Log (nl @ ''METADATA STORAGE:'')] @
                (if onchain
                 then [Log ''   All metadata is stored ON-CHAIN in the contract'',
                       Log ''   Metadata can be queried directly from the contract'',
                       Log ''   No external dependencies (IPFS not required)'']
                 else [Log ''   Metadata is stored OFF-CHAIN on IPFS'',
                       Log (''   Token URI: '' @ TOKEN_URI),
                       Log ''   Contract stores only the IPFS reference'',
                       Log ''   Wallets/apps will fetch metadata from IPFS'']) @
                [Log (nl @ ''NEXT STEPS:''),
                 Log ''   1. Use verify-ownership.js to verify the NFT owner'',
                 Log ''   2. Use transfer-nft.js to transfer the NFT to another address'',
                 Log ''   3. Query NFT metadata using the contract address and token ID'',
                 Log [],
                 Call Disconnect])
               (ret ()))))))))))
       (handleError rt)"

subsection \<open>The deploy script\<close>

definition deployContract :: "'w runtime \<Rightarrow> env \<Rightarrow> event list" where
  "deployContract rt env =
     run_try
       (let NFT_NAME = or_default (env ''NFT_NAME'') ''My NFT Collection'';
            NFT_SYMBOL = or_default (env ''NFT_SYMBOL'') ''MNFT'';
            CONTRACT_LABEL = or_default (env ''CONTRACT_LABEL'') ''my-nft-contract''
        in emit [Log (''Deploying CW721 NFT Contract...'' @ nl),
                 Log ''Loading wallet from environment...'']
          (bind (loadWallet rt env) (\<lambda>wallet.
           bind (getFirstAccount rt wallet) (\<lambda>account.
           emit [Log (''Wallet loaded: '' @ address account @ nl),
                 Log ''Connecting to XION network...'']
          (bind (connectSigningClient rt wallet) (\<lambda>client.
           emit [Log (''Connected to '' @ XION_CONFIG_chainId @ nl)]
          (bind (call (GetBalance (address account) XION_CONFIG_denom)
                   (getBalance rt (address account) XION_CONFIG_denom)) (\<lambda>balance.
           emit [Log (''Wallet balance: '' @ coin_amount balance @ '' '' @ coin_denom balance)]
          (if parseInt (coin_amount balance) = Fin 0
           then emit
                  [Log (nl @ ''Warning: Wallet has zero balance!''),
                   Log ''   Please fund your wallet with testnet tokens before deploying.'',
                   Log (''   Discord: '' @ XION_CONFIG_faucet_discord),
                   Log (''   Command: '' @ XION_CONFIG_faucet_command)]
                  (ret ())
           else
             let instantiateMsg =
                   JObj [(''name'', JStr NFT_NAME), (''symbol'', JStr NFT_SYMBOL),
                         (''minter'', JStr (address account))]
             in
             emit
               [Log (nl @ ''Contract Configuration:''),
                Log (''   Name: '' @ NFT_NAME),
                Log (''   Symbol: '' @ NFT_SYMBOL),
                Log (''   Minter: '' @ address account),
                Log (''   Code ID: '' @ show_nat XION_CONFIG_cw721MetadataOnchainCodeId),
                Log (''   Label: '' @ CONTRACT_LABEL),
                Log (nl @ ''Instantiating contract...'')]
            (bind (instantiateContract rt (address account)
                     XION_CONFIG_cw721MetadataOnchainCodeId instantiateMsg CONTRACT_LABEL
                     (Some (address account))) (\<lambda>result.
             let contractAddress' = contractAddress result
             in
             emit
               ([Log (nl @ rule80),
                 Log ''CONTRACT DEPLOYED SUCCESSFULLY!'',
                 Log rule80,
                 Log (''Contract Address: '' @ contractAddress'),
                 Log (''Explorer: https://www.mintscan.io/xion-testnet/address/'' @ contractAddress'),
                 Log rule80] @
                printTxResult result @
                [Log (nl @ ''NEXT STEPS:''),
                 Log (''   1. Add CONTRACT_ADDRESS='' @ [CHR 0x22] @ contractAddress' @ [CHR 0x22] @
                      '' to your .env file''),
                 Log ''   2. Use mint-token.js to mint your first NFT'',
                 Log ''   3. Use transfer-nft.js to transfer NFTs between addresses'',
                 Log [],
                 Call Disconnect])
               (ret ()))))))))))))
       (handleError rt)"

subsection \<open>The ownership verification script\<close>

definition attempt :: "'a step \<Rightarrow> ('a \<Rightarrow> event list) \<Rightarrow> event list \<Rightarrow> event list" where
  "attempt body print fallback =
     (case body of (evs, Inl e) \<Rightarrow> evs @ fallback | (evs, Inr a) \<Rightarrow> evs @ print a)"

definition field_line :: "(string \<times> json) list \<Rightarrow> string \<Rightarrow> string \<Rightarrow> event list" where
  "field_line obj key label =
     (case map_of obj key of
        Some v \<Rightarrow> (if js_truthy v then [Log (label @ js_String v)] else [])
      | None \<Rightarrow> [])"

definition verifyOwnership :: "'w runtime \<Rightarrow> env \<Rightarrow> string list \<Rightarrow> event list" where
  "verifyOwnership rt env argv =
     run_try
       (let CONTRACT_ADDRESS = env ''CONTRACT_ADDRESS'';
            TOKEN_ID = verifyOwnership_TOKEN_ID env argv;
            EXPECTED_OWNER = verifyOwnership_EXPECTED_OWNER env argv
        in emit [Log (''Verifying NFT Ownership...'' @ nl)]
          (if \<not> truthy CONTRACT_ADDRESS
           then emit
                  [LogError ''Error: CONTRACT_ADDRESS not set!'',
                   Log ''   Please set CONTRACT_ADDRESS in your .env file'']
                  (ret ())
           else if \<not> truthy TOKEN_ID
           then emit
                  [LogError ''Error: TOKEN_ID not provided!'',
                   Log ''   Usage: npm run verify-ownership <token_id> [expected_owner_address]'',
                   Log ''   Or set TOKEN_ID in .env file'']
                  (ret ())
           else
             emit [Log ''Connecting to XION network...'']
            (bind (connectQueryClient rt) (\<lambda>client.
             let ownerQuery = JObj [(''owner_of'', JObj [(''token_id'', JStr (the TOKEN_ID))])]
             in
             emit
               [Log (''Connected to '' @ XION_CONFIG_chainId @ nl),
                Log ''Query Details:'',
                Log (''   Contract: '' @ the CONTRACT_ADDRESS),
                Log (''   Token ID: '' @ the TOKEN_ID),
                Log (nl @ ''Querying NFT ownership...'')]
            (bind (queryContract (owner_of rt) (the CONTRACT_ADDRESS) ownerQuery) (\<lambda>ownerResult.
             let nftInfoQuery = JObj [(''nft_info'', JObj [(''token_id'', JStr (the TOKEN_ID))])];
                 tokensQuery =
                   JObj [(''tokens'', JObj [(''owner'', JStr (owner ownerResult)),
                                           (''limit'', JNum (Fin 100))])]
             in
             emit
               ([Log (nl @ rule80),
                 Log ''OWNERSHIP VERIFICATION RESULT'',
                 Log rule80,
                 Log (''Token ID: '' @ the TOKEN_ID),
                 Log (''Owner: '' @ owner ownerResult)] @
                (if approvals ownerResult \<noteq> []
                 then Log (''Approvals: '' @ show_nat (length (approvals ownerResult))) #
                      map (\<lambda>(i, approval).
                             Log (''   '' @ show_nat (i + 1) @ ''. '' @ spender approval @
                                  '' (expires: '' @ js_String (expires approval) @ '')''))
                        (enumerate 0 (approvals ownerResult))
                 else [Log ''Approvals: None'']) @
                [Log rule80] @
                (if truthy EXPECTED_OWNER
                 then [Log (nl @ ''Verification Check:''),
                       Log (''   Expected: '' @ the EXPECTED_OWNER),
                       Log (''   Actual: '' @ owner ownerResult),
                       if owner ownerResult = the EXPECTED_OWNER
                       then Log ''   MATCH - Ownership verified!''
                       else Log ''   MISMATCH - Owner does not match expected address'']
                 else []) @
                [Log (nl @ ''Fetching NFT metadata...'')] @
                attempt (queryContract (nft_info rt) (the CONTRACT_ADDRESS) nftInfoQuery)
                  (\<lambda>nftInfo.
                     [Log (nl @ ''NFT Metadata:''),
                      Log (''   Token URI: '' @ or_default (token_uri nftInfo) ''Not set'')] @
                     (case extension nftInfo of
                        None \<Rightarrow> []
                      | Some ext \<Rightarrow>
                          field_line ext ''name'' ''   Name: '' @
                          field_line ext ''description'' ''   Description: '' @
                          field_line ext ''image'' ''   Image: '' @
                          (let knownFields = [''name'', ''description'', ''image''];
                               otherFields = filter (\<lambda>k. k \<notin> set knownFields) (map fst ext)
                           in if otherFields \<noteq> []
                              then Log ''   Additional metadata:'' #
                                   map (\<lambda>field.
                                          Log (''     '' @ field @ '': '' @
                                               JSON_stringify rt (the (map_of ext field))))
                                     otherFields
                              else [])))
                  [Log (nl @ ''Could not fetch metadata (may not be available)'')] @
                [Log (nl @ ''Checking owner'' @ [CHR 0x27] @ ''s total NFTs...'')] @
                attempt (queryContract (tokens_of rt) (the CONTRACT_ADDRESS) tokensQuery)
                  (\<lambda>tokensResult.
                     Log (nl @ ''Total NFTs owned by '' @ owner ownerResult @ '': '' @
                          show_nat (length (tokens tokensResult))) #
                     (if tokens tokensResult \<noteq> []
                      then [Log (''   Token IDs: '' @ join '', '' (tokens tokensResult))]
                      else []))
                  [Log (nl @ ''Could not fetch owner'' @ [CHR 0x27] @ ''s token list'')] @
                [Log [], Call Disconnect])
               (ret ())))))))
       (\<lambda>error.
          case error of Error message \<Rightarrow>
            if message \<noteq> [] \<and> string_includes message ''not found''
            then [LogError (nl @ ''Error: Token not found!''),
                  Log ''   The specified token ID does not exist in this contract.'',
                  Log ''   Please check the token ID and contract address.'']
            else handleError rt error)"

section \<open>Observations on a run, and the specification's own notions\<close>

text \<open>The library calls of a run, in order; the calls that only read the chain.\<close>

definition calls_of :: "event list \<Rightarrow> call list" where
  "calls_of evs = concat (map (\<lambda>e. case e of Call c \<Rightarrow> [c] | _ \<Rightarrow> []) evs)"

definition exit_codes :: "event list \<Rightarrow> nat list" where
  "exit_codes evs = concat (map (\<lambda>e. case e of Exit n \<Rightarrow> [n] | _ \<Rightarrow> []) evs)"

definition is_instantiate :: "call \<Rightarrow> bool" where
  "is_instantiate c = (case c of Instantiate s i m l f a \<Rightarrow> True | _ \<Rightarrow> False)"

definition read_only :: "call \<Rightarrow> bool" where
  "read_only c =
     (case c of Connect e \<Rightarrow> True | QueryContractSmart a q \<Rightarrow> True | Disconnect \<Rightarrow> True
      | _ \<Rightarrow> False)"

text \<open>
  Two runs of a script in a row. What one process leaves to the next is the environment, the
  command line, what the console shows, and the chain: every library call of a run acts on the
  state of the chain, and the library answers from the state it finds. The script assigns to
  neither the environment nor the command line and writes no file.
\<close>

record 'c session =
  session_env :: env
  session_argv :: "string list"
  console :: "event list"
  chain :: 'c

definition run_verifyOwnership ::
  "('c \<Rightarrow> 'w runtime) \<Rightarrow> (call \<Rightarrow> 'c \<Rightarrow> 'c) \<Rightarrow> 'c session \<Rightarrow> 'c session" where
  "run_verifyOwnership library effect s =
     (let output = verifyOwnership (library (chain s)) (session_env s) (session_argv s)
      in s\<lparr>console := console s @ output,
           chain := fold effect (calls_of output) (chain s)\<rparr>)"



text \<open>
  Two concrete libraries for the examples: one where every call fails, one where the wallet
  of any mnemonic has the single account \<^verbatim>\<open>xion1deployer\<close> holding the given balance, the
  network is reachable and a transaction succeeds.
\<close>

definition offline_runtime :: "unit runtime" where
  "offline_runtime =
     \<lparr>fromMnemonic = (\<lambda>m p. Inl (Error ''offline'')),
      getAccounts = (\<lambda>w. Inl (Error ''offline'')),
      connectWithSigner = (\<lambda>e w g. Inl (Error ''offline'')),
      connect = (\<lambda>e. Inl (Error ''offline'')),
      getBalance = (\<lambda>a d. Inl (Error ''offline'')),
      instantiate = (\<lambda>s i m l a. Inl (Error ''offline'')),
      execute = (\<lambda>s c m memo f. Inl (Error ''offline'')),
      owner_of = (\<lambda>c q. Inl (Error ''offline'')),
      nft_info = (\<lambda>c q. Inl (Error ''offline'')),
      tokens_of = (\<lambda>c q. Inl (Error ''offline'')),
      stack = (\<lambda>e. None),
      JSON_parse = (\<lambda>s. None),
      JSON_stringify = (\<lambda>v. [])\<rparr>"

definition example_receipt :: tx_result where
  "example_receipt =
     \<lparr>transactionHash = ''ABCD'', gasUsed = 150000, gasWanted = 200000, height = 42, logs = []\<rparr>"

definition funded_runtime :: "string \<Rightarrow> unit runtime" where
  "funded_runtime balance =
     \<lparr>fromMnemonic = (\<lambda>m p. Inr ()),
      getAccounts = (\<lambda>w. Inr (\<lparr>address = ''xion1deployer''\<rparr>, [])),
      connectWithSigner = (\<lambda>e w g. Inr ()),
      connect = (\<lambda>e. Inr ()),
      getBalance = (\<lambda>a d. Inr \<lparr>coin_denom = d, coin_amount = balance\<rparr>),
      instantiate = (\<lambda>s i m l a. Inr (tx_result.extend example_receipt
                       (instantiate_result.fields ''xion1contract''))),
      execute = (\<lambda>s c m memo f. Inr example_receipt),
      owner_of = (\<lambda>c q. Inr \<lparr>owner = ''xion1deployer'', approvals = []\<rparr>),
      nft_info = (\<lambda>c q. Inr \<lparr>token_uri = Some ''ipfs://QmExample...'', extension = None\<rparr>),
      tokens_of = (\<lambda>c q. Inr \<lparr>tokens = [''1'']\<rparr>),
      stack = (\<lambda>e. None),
      JSON_parse = (\<lambda>s. None),
      JSON_stringify = (\<lambda>v. [])\<rparr>"

text \<open>
  A chain for the examples: its state is the holder of token \<^verbatim>\<open>1\<close>, which an executed
  transaction hands to the sender and which nothing else changes.
\<close>

definition example_library :: "string \<Rightarrow> unit runtime" where
  "example_library holder =
     (funded_runtime ''1000000'')\<lparr>owner_of := (\<lambda>c q. Inr \<lparr>owner = holder, approvals = []\<rparr>)\<rparr>"

definition example_effect :: "call \<Rightarrow> string \<Rightarrow> string" where
  "example_effect c holder =
     (case c of Execute sender contract msg fee memo funds \<Rightarrow> sender | _ \<Rightarrow> holder)"

definition example_session :: "string session" where
  "example_session =
     \<lparr>session_env = [''CONTRACT_ADDRESS'' \<mapsto> ''xion1contract'', ''TOKEN_ID'' \<mapsto> ''1''],
      session_argv = [''node'', ''verify-ownership.js''],
      console = [],
      chain = ''xion1deployer''\<rparr>"

section \<open>Properties of the number model\<close>

subsection \<open>Rounding to a double\<close>

text \<open>
  \<open>ilog\<close> brackets its argument between consecutive powers; \<open>round_even\<close> stays between
  any two integers around its argument and within a half of it; a natural number below
  \<open>2 ^ 53\<close> is a double.
\<close>

lemma powi_add1: "0 < (x::real) \<Longrightarrow> x powi (m + 1) = x powi m * x"
  by (simp add: power_int_add_1)

lemma ilog_bounds:
  assumes "0 < x" "2 \<le> b"
  shows "real b powi ilog b x \<le> x \<and> x < real b powi (ilog b x + 1)"
  using assms
proof (induction b x rule: ilog.induct)
  case (1 b x)
  have b0: "real b \<noteq> 0" "0 < real b" using "1.prems" by auto
  consider (big) "real b \<le> x" | (small) "x < 1" "x < real b" | (mid) "1 \<le> x" "x < real b"
    by linarith
  then show ?case
  proof cases
    case big
    have il: "ilog b x = ilog b (x / real b) + 1"
      using big "1.prems" by (subst ilog.simps) simp
    have "real b powi ilog b (x / real b) \<le> x / real b \<and>
          x / real b < real b powi (ilog b (x / real b) + 1)"
      using big "1.prems" b0 by (intro "1.IH"(1)) auto
    then have "real b powi ilog b (x / real b) * real b \<le> x"
      and "x < real b powi (ilog b (x / real b) + 1) * real b"
      using b0 by (simp_all add: pos_le_divide_eq pos_divide_less_eq)
    moreover have "real b powi (ilog b (x / real b) + 1) = real b powi ilog b (x / real b) * real b"
      and "real b powi (ilog b (x / real b) + 1 + 1) =
             real b powi (ilog b (x / real b) + 1) * real b"
      using b0 by (simp_all only: powi_add1)
    ultimately show ?thesis
      unfolding il by (simp only:)
  next
    case small
    have il: "ilog b x = ilog b (real b * x) - 1"
      using small "1.prems" by (subst ilog.simps) simp
    have ih: "real b powi ilog b (real b * x) \<le> real b * x \<and>
          real b * x < real b powi (ilog b (real b * x) + 1)"
      using small "1.prems" b0 by (intro "1.IH"(2)) auto
    have "real b powi ilog b (real b * x) = real b powi (ilog b (real b * x) - 1) * real b"
      using b0 by (simp add: power_int_minus_mult)
    moreover have "real b powi (ilog b (real b * x) + 1) = real b powi ilog b (real b * x) * real b"
      using b0 by (simp add: power_int_add_1)
    ultimately have "real b powi (ilog b (real b * x) - 1) * real b \<le> x * real b"
      and "x * real b < real b powi ilog b (real b * x) * real b"
      using ih by (simp_all add: mult.commute)
    then show ?thesis
      unfolding il using b0 by simp
  next
    case mid
    have il: "ilog b x = 0"
      using mid "1.prems" by (subst ilog.simps) simp
    show ?thesis unfolding il using mid by simp
  qed
qed

lemma round_even_of_int [simp]: "round_even (of_int k) = k"
  by (simp add: round_even_def)

lemma round_even_ge: "of_int A \<le> q \<Longrightarrow> A \<le> round_even q"
  by (simp add: round_even_def Let_def le_floor_iff) linarith

lemma round_even_le: "q \<le> of_int B \<Longrightarrow> round_even q \<le> B"
proof -
  assume a: "q \<le> of_int B"
  have f: "\<lfloor>q\<rfloor> \<le> B" using a by (simp add: floor_le_iff)
  show ?thesis
  proof (cases "\<lfloor>q\<rfloor> = B")
    case True
    then have "q = of_int B" using a by linarith
    then show ?thesis by simp
  next
    case False
    then have "\<lfloor>q\<rfloor> + 1 \<le> B" using f by simp
    then show ?thesis using f by (simp add: round_even_def Let_def)
  qed
qed

lemma round_even_err: "\<bar>of_int (round_even q) - q\<bar> \<le> 1 / 2"
  by (simp add: round_even_def Let_def)


lemma ilog2_nonneg:
  assumes "1 \<le> x"
  shows "0 \<le> ilog 2 x"
proof (rule ccontr)
  assume "\<not> 0 \<le> ilog 2 x"
  then have "ilog 2 x + 1 \<le> 0" by simp
  then have "(2::real) powi (ilog 2 x + 1) \<le> 2 powi 0"
    by (intro power_int_increasing) simp_all
  moreover have "x < real 2 powi (ilog 2 x + 1)"
    using ilog_bounds [of x 2] assms by simp
  ultimately show False using assms by simp
qed

lemma ilog2_less:
  assumes "0 < x" "x < 2 powi m"
  shows "ilog 2 x < m"
proof (rule ccontr)
  assume "\<not> ilog 2 x < m"
  then have "(2::real) powi m \<le> 2 powi ilog 2 x"
    by (intro power_int_increasing) simp_all
  moreover have "real 2 powi ilog 2 x \<le> x"
    using ilog_bounds [of x 2] assms by simp
  ultimately show False using assms by simp
qed

lemma ilog2_ge:
  assumes "0 < x" "2 powi m \<le> x"
  shows "m \<le> ilog 2 x"
proof (rule ccontr)
  assume "\<not> m \<le> ilog 2 x"
  then have "ilog 2 x + 1 \<le> m" by simp
  then have "(2::real) powi (ilog 2 x + 1) \<le> 2 powi m"
    by (intro power_int_increasing) simp_all
  moreover have "x < real 2 powi (ilog 2 x + 1)"
    using ilog_bounds [of x 2] assms by simp
  ultimately show False using assms by simp
qed

lemma fl_positive:
  assumes "0 < x" "- 1022 \<le> ilog 2 x"
    and "of_int (round_even (x / 2 powi (ilog 2 x - 52))) * (2::real) powi (ilog 2 x - 52) < 2 ^ 1024"
  shows "fl x = Fin (of_int (round_even (x / 2 powi (ilog 2 x - 52))) * 2 powi (ilog 2 x - 52))"
proof -
  have m: "max (ilog 2 x - 52) (- 1074) = ilog 2 x - 52" and a: "\<bar>x\<bar> = x"
    using assms(1,2) by simp_all
  show ?thesis
    unfolding fl_def Let_def m a using assms(1,3) by (simp add: not_le)
qed

lemma fl_nat:
  assumes "n < 2 ^ 53"
  shows "fl (real n) = Fin (real n)"
proof (cases "n = 0")
  case True
  then show ?thesis by (simp add: fl_def)
next
  case False
  define k where "k = ilog 2 (real n)"
  define j where "j = nat (52 - k)"
  have x: "0 < real n" "1 \<le> real n" using False by simp_all
  have k0: "0 \<le> k" unfolding k_def using x by (intro ilog2_nonneg)
  have "real n < 2 powi 53" using assms
    by (metis numeral_power_eq_of_nat_cancel_iff of_nat_less_iff of_nat_numeral power_int_numeral)
  then have k53: "k < 53" unfolding k_def using x by (intro ilog2_less)
  have e: "k - 52 = - int j" using k53 by (simp add: j_def)
  have p: "(2::real) powi (k - 52) = 1 / 2 ^ j"
    unfolding e by (simp add: power_int_minus_divide)
  have q: "real n / 2 powi (k - 52) = of_int (int (n * 2 ^ j))"
    unfolding p by simp
  have r: "round_even (real n / 2 powi (k - 52)) = int (n * 2 ^ j)"
    unfolding q by (rule round_even_of_int)
  have "real_of_int (round_even (real n / 2 powi (k - 52))) = real n * 2 ^ j"
    unfolding r by simp
  then have v: "of_int (round_even (real n / 2 powi (k - 52))) * 2 powi (k - 52) = real n"
    unfolding p by simp
  have "real n < 2 ^ 1024"
  proof -
    have "real n < 2 ^ 53" using assms
      by (metis numeral_power_eq_of_nat_cancel_iff of_nat_less_iff of_nat_numeral)
    also have "\<dots> \<le> (2::real) ^ 1024" by (intro power_increasing) simp_all
    finally show ?thesis .
  qed
  then show ?thesis
    using fl_positive [of "real n"] x k0 v unfolding k_def [symmetric] by simp
qed



subsection \<open>Decimal numerals\<close>

text \<open>What was printed by \<open>show_nat\<close> reads back as the same number.\<close>

lemma upto_ten: "d < 10 \<Longrightarrow> d \<in> {0, 1, 2, 3, 4, 5, 6, 7, 8, 9::nat}"
  by auto

lemma digit_of_digit_char: "d < 10 \<Longrightarrow> digit_of (digit_char d) = Some d"
  by (drule upto_ten, elim insertE emptyE; simp add: digit_of_def digit_char_def)

lemma digit_char_dec: "d < 10 \<Longrightarrow> digit_char d \<in> set ''0123456789''"
  by (drule upto_ten, elim insertE emptyE; simp add: digit_char_def)

lemma dec_char:
  assumes "c \<in> set ''0123456789''"
  shows "is_digit 10 c" "is_digit 16 c" "\<not> is_space c" "c \<noteq> CHR ''-''" "c \<noteq> CHR ''+''"
    "c \<noteq> CHR ''I''" "c \<noteq> CHR ''x''" "c \<noteq> CHR ''X''" "c \<noteq> CHR ''.''"
  using assms by (simp_all, (elim disjE; simp add: is_digit_def digit_of_def is_space_def)+)

lemma show_nat_dec: "c \<in> set (show_nat n) \<Longrightarrow> c \<in> set ''0123456789''"
proof (induction n arbitrary: c rule: show_nat.induct)
  case (1 n)
  show ?case
  proof (cases "n < 10")
    case True
    then show ?thesis using "1.prems" digit_char_dec [of n]
      by (subst (asm) show_nat.simps) simp
  next
    case False
    then have "c \<in> set (show_nat (n div 10)) \<or> c = digit_char (n mod 10)"
      using "1.prems" by (subst (asm) show_nat.simps) auto
    moreover have "digit_char (n mod 10) \<in> set ''0123456789''"
      by (rule digit_char_dec) simp
    ultimately show ?thesis
      using "1.IH" [OF False] by (elim disjE) (simp_all only:)
  qed
qed

lemma show_nat_nonempty: "show_nat n \<noteq> []"
  by (subst show_nat.simps) simp

lemma digits_val_snoc:
  "digits_val R (ds @ [c]) = digits_val R ds * R + (case digit_of c of Some d \<Rightarrow> d | None \<Rightarrow> 0)"
  by (simp add: digits_val_def)

lemma digits_val_show_nat: "digits_val 10 (show_nat n) = n"
proof (induction n rule: show_nat.induct)
  case (1 n)
  show ?case
  proof (cases "n < 10")
    case True
    then show ?thesis
      by (subst show_nat.simps) (simp add: digits_val_def digit_of_digit_char)
  next
    case False
    then show ?thesis
      using "1.IH" [OF False]
      by (subst show_nat.simps) (simp add: digits_val_snoc digit_of_digit_char)
  qed
qed

lemma digits_val_zeros: "digits_val 10 (ds @ replicate k (CHR ''0'')) = digits_val 10 ds * 10 ^ k"
proof (induction k)
  case 0
  then show ?case by simp
next
  case (Suc k)
  have "digits_val 10 (ds @ replicate (Suc k) (CHR ''0'')) =
          digits_val 10 ((ds @ replicate k (CHR ''0'')) @ [CHR ''0''])"
    by (simp add: replicate_append_same)
  also have "\<dots> = digits_val 10 (ds @ replicate k (CHR ''0'')) * 10"
    unfolding digits_val_snoc by (simp add: digit_of_def)
  finally show ?case unfolding Suc by simp
qed




lemma takeWhile_dec: "takeWhile (is_digit 10) (show_nat n) = show_nat n"
  by (rule takeWhile_eq_all_conv [THEN iffD2]) (auto dest: show_nat_dec dec_char(1))

lemma show_nat_plain:
  "dropWhile is_space (show_nat n @ r) = show_nat n @ r"
  "strip_sign (show_nat n @ r) = (False, show_nat n @ r)"
  "take 8 (show_nat n @ r) \<noteq> ''Infinity''"
proof -
  obtain c cs where s: "show_nat n = c # cs"
    using show_nat_nonempty [of n] by (cases "show_nat n") auto
  then have c: "c \<in> set ''0123456789''" using show_nat_dec [of c n] by simp
  show "dropWhile is_space (show_nat n @ r) = show_nat n @ r"
    using dec_char(3) [OF c] by (simp add: s)
  show "strip_sign (show_nat n @ r) = (False, show_nat n @ r)"
    using dec_char(4,5) [OF c] by (simp add: s strip_sign_def)
  show "take 8 (show_nat n @ r) \<noteq> ''Infinity''"
    using dec_char(6) [OF c] by (simp add: s)
qed

lemma show_nat_not_hex: "take 2 (show_nat n) \<noteq> ''0x''" "take 2 (show_nat n) \<noteq> ''0X''"
proof -
  have "\<not> (\<exists>a. take 2 (show_nat n) = [a, CHR ''x'']) \<and> \<not> (\<exists>a. take 2 (show_nat n) = [a, CHR ''X''])"
  proof (intro conjI notI; elim exE)
    fix a assume "take 2 (show_nat n) = [a, CHR ''x'']"
    then have "CHR ''x'' \<in> set (take 2 (show_nat n))" by simp
    then have "CHR ''x'' \<in> set (show_nat n)" by (rule in_set_takeD)
    then show False using dec_char(7) show_nat_dec by blast
  next
    fix a assume "take 2 (show_nat n) = [a, CHR ''X'']"
    then have "CHR ''X'' \<in> set (take 2 (show_nat n))" by simp
    then have "CHR ''X'' \<in> set (show_nat n)" by (rule in_set_takeD)
    then show False using dec_char(8) show_nat_dec by blast
  qed
  then show "take 2 (show_nat n) \<noteq> ''0x''" "take 2 (show_nat n) \<noteq> ''0X''" by auto
qed

lemma parseInt_show_nat: "parseInt (show_nat n) = fl (real n)"
  using show_nat_plain(1,2) [of n "[]"] show_nat_not_hex [of n] show_nat_nonempty [of n]
  by (simp add: parseInt_def takeWhile_dec digits_val_show_nat)



lemma show_nat_times_10: "0 < n \<Longrightarrow> show_nat (n * 10) = show_nat n @ ''0''"
  by (subst show_nat.simps) (simp add: digit_char_def)

lemma show_nat_times_pow10: "0 < n \<Longrightarrow> show_nat (n * 10 ^ k) = show_nat n @ replicate k (CHR ''0'')"
proof (induction k)
  case 0
  then show ?case by simp
next
  case (Suc k)
  have "n * 10 ^ Suc k = n * 10 ^ k * 10" by simp
  then have "show_nat (n * 10 ^ Suc k) = show_nat (n * 10 ^ k * 10)"
    by (simp only:)
  also have "\<dots> = show_nat (n * 10 ^ k) @ ''0''"
    using Suc.prems by (intro show_nat_times_10) simp
  finally show ?case
    using Suc by (simp add: replicate_append_same)
qed

lemma replicate_numeral: "replicate (numeral k) c = c # replicate (pred_numeral k) c"
  by (simp add: numeral_eq_Suc)

lemma Math_pow_10_6: "Math_pow 10 6 = Fin 1000000"
  using fl_nat [of 1000000] by (simp add: Math_pow_def)

lemma toString_nat:
  assumes "n \<le> 2 ^ 53"
  shows "Number_toString (Fin (real n)) = show_nat n"
proof (cases "n = 0")
  case True
  then show ?thesis by (simp add: Number_toString_def show_nat.simps digit_char_def)
next
  case False
  have "real n \<le> 2 ^ 53" using assms
    by (metis numeral_power_eq_of_nat_cancel_iff of_nat_le_iff of_nat_numeral)
  then show ?thesis using False by (simp add: Number_toString_def)
qed

lemma toFixed_nat:
  assumes "m < 10 ^ 21"
  shows "Number_toFixed (Fin (real m)) 6 = show_nat m @ ''.000000''"
proof -
  have small: "\<not> 10 ^ 21 \<le> \<bar>real m\<bar>"
    using assms by (metis abs_of_nat not_le numeral_power_eq_of_nat_cancel_iff of_nat_less_iff of_nat_numeral)
  have "real m * 10 ^ 6 + 1 / 2 = of_int (int (m * 10 ^ 6)) + 1 / 2" by simp
  then have "\<lfloor>\<bar>real m\<bar> * 10 ^ 6 + 1 / 2\<rfloor> = int (m * 10 ^ 6)"
    by (simp only: abs_of_nat) linarith
  then have n: "nat \<lfloor>\<bar>real m\<bar> * 10 ^ 6 + 1 / 2\<rfloor> = m * 10 ^ 6"
    by simp
  show ?thesis
  proof (cases "m = 0")
    case True
    show ?thesis
      unfolding Number_toFixed_def number.case n Let_def using small
      by (simp add: True show_nat.simps digit_char_def replicate_numeral)
  next
    case False
    then have s: "show_nat (m * 10 ^ 6) = show_nat m @ replicate 6 (CHR ''0'')"
      by (intro show_nat_times_pow10) simp
    show ?thesis
      unfolding Number_toFixed_def number.case n Let_def s using small
      by (simp add: replicate_numeral show_nat_nonempty)
  qed
qed


lemma parseFloat_fixed: "parseFloat (show_nat m @ ''.000000'') = fl (real m)"
proof -
  let ?s = "show_nat m @ ''.000000''"
  have dot: "\<not> is_digit 10 (CHR ''.'')" by (simp add: is_digit_def digit_of_def)
  have zero: "is_digit 10 (CHR ''0'')" by (simp add: is_digit_def digit_of_def)
  have all: "\<forall>c\<in>set (show_nat m). is_digit 10 c"
    using show_nat_dec dec_char(1) by blast
  have ip: "takeWhile (is_digit 10) ?s = show_nat m"
    using all dot by (simp add: takeWhile_append2)
  have r: "dropWhile (is_digit 10) ?s = ''.000000''"
    using all dot by (simp add: dropWhile_append2)
  have fp: "takeWhile (is_digit 10) ''000000'' = ''000000''"
    and r': "dropWhile (is_digit 10) ''000000'' = []"
    by (simp_all add: zero)
  have v: "digits_val 10 (show_nat m @ ''000000'') = m * 10 ^ 6"
    using digits_val_zeros [of "show_nat m" 6] by (simp add: digits_val_show_nat replicate_numeral)
  have e: "exponent_part [] = 0" by (simp add: exponent_part_def)
  have n8: "(take 8 ?s = ''Infinity'') = False"
    using show_nat_plain(3) [of m "''.000000''"] by simp
  have d: "(''.000000'' \<noteq> [] \<and> hd ''.000000'' = CHR ''.'') = True"
    "tl ''.000000'' = ''000000''" by simp_all
  have "real (m * 10 ^ 6) * 10 powi (0 - int (length ''000000'')) = real m"
    by simp
  then show ?thesis
    unfolding parseFloat_def show_nat_plain prod.case Let_def ip r n8 d fp r' e if_True if_False v
    by (simp add: show_nat_nonempty)
qed

subsection \<open>The fee product\<close>

text \<open>
  Between \<open>2 ^ - 6\<close> and \<open>2 ^ 48\<close> the doubles are spaced \<open>2 ^ - j\<close> apart for some
  \<open>j \<ge> 5\<close>. The configured gas price reads as the double \<open>(1 + 2 ^ - 54) / 40\<close>, so the
  product with a whole gas amount below \<open>2 ^ 53\<close> rounds to the exact fortieth when that is
  an integer, and otherwise stays strictly between the integers around it.
\<close>

lemma fl_fine_grid:
  assumes lo: "1 / 2 ^ 6 \<le> y" and hi: "y < 2 ^ 48"
  obtains j where "5 \<le> j" "y * 2 ^ j < 2 ^ 53"
    "fl y = Fin (of_int (round_even (y * 2 ^ j)) / 2 ^ j)"
proof -
  define k where "k = ilog 2 y"
  define j where "j = nat (52 - k)"
  have y0: "0 < y" using lo by (smt (verit) divide_pos_pos zero_less_power)
  have "(2::real) powi (- 6) \<le> y" using lo by (simp add: power_int_minus_divide)
  then have k_lo: "- 6 \<le> k" unfolding k_def using y0 by (intro ilog2_ge)
  have "y < 2 powi 48" using hi by simp
  then have k_hi: "k < 48" unfolding k_def using y0 by (intro ilog2_less)
  have e: "k - 52 = - int j" and j5: "5 \<le> j" using k_hi by (simp_all add: j_def)
  have p: "(2::real) powi (k - 52) = 1 / 2 ^ j"
    unfolding e by (simp add: power_int_minus_divide)
  have q: "y / 2 powi (k - 52) = y * 2 ^ j" unfolding p by simp
  have "y < real 2 powi (k + 1)"
    using ilog_bounds [of y 2] y0 by (simp add: k_def)
  also have "(real 2) powi (k + 1) = 2 powi (k - 52) * 2 ^ 53"
  proof -
    have "(2::real) powi ((k - 52) + 53) = 2 powi (k - 52) * 2 powi 53"
      by (rule power_int_add) simp
    moreover have "(k - 52) + 53 = k + 1" by simp
    ultimately have "(2::real) powi (k + 1) = 2 powi (k - 52) * 2 powi 53"
      by (simp only:)
    then show ?thesis by simp
  qed
  finally have "y < 2 ^ 53 / 2 ^ j" unfolding p by simp
  then have q53: "y * 2 ^ j < 2 ^ 53" by (simp add: pos_less_divide_eq)
  have "round_even (y * 2 ^ j) \<le> 2 ^ 53"
    using q53 by (intro round_even_le) simp
  then have "real_of_int (round_even (y * 2 ^ j)) \<le> 2 ^ 53"
    by (metis of_int_le_iff of_int_numeral of_int_power)
  then have "real_of_int (round_even (y * 2 ^ j)) * (1 / 2 ^ j) \<le> 2 ^ 53 * 1"
    by (intro mult_mono) (simp_all add: divide_le_eq)
  also have "\<dots> < (2::real) ^ 1024" by simp
  finally have v: "of_int (round_even (y / 2 powi (k - 52))) * (2::real) powi (k - 52) < 2 ^ 1024"
    unfolding q p by simp
  have "fl y = Fin (of_int (round_even (y / 2 powi (k - 52))) * 2 powi (k - 52))"
    using y0 k_lo v unfolding k_def by (intro fl_positive) simp_all
  then have "fl y = Fin (of_int (round_even (y * 2 ^ j)) / 2 ^ j)"
    unfolding q p by simp
  with j5 q53 show thesis by (rule that)
qed


lemma ceiling_unique_le: "real_of_int n < p \<Longrightarrow> p \<le> real_of_int (n + 1) \<Longrightarrow> \<lceil>p\<rceil> = n + 1"
  by (simp add: ceiling_unique)

lemma fee_product:
  fixes g :: nat
  defines "C \<equiv> (3602879701896397 / 144115188075855872 :: real)"
  assumes g: "g < 2 ^ 53"
  shows "\<exists>p. fl (real g * C) = Fin p \<and> \<lceil>p\<rceil> = int ((g + 39) div 40)"
proof (cases "g = 0")
  case True
  then show ?thesis by (simp add: fl_def)
next
  case False
  define y where "y = real g * C"
  define n where "n = g div 40"
  define r where "r = g mod 40"
  have gr: "real g < 2 ^ 53" using g
    by (metis numeral_power_eq_of_nat_cancel_iff of_nat_less_iff of_nat_numeral)
  have g1: "1 \<le> real g" using False by simp
  have C40: "40 * C = 1 + 1 / 2 ^ 54" by (simp add: C_def)
  have Cpos: "0 < C" by (simp add: C_def)
  have "1 / 2 ^ 6 \<le> 1 * C" by (simp add: C_def)
  also have "\<dots> \<le> real g * C" using g1 Cpos by (intro mult_right_mono) simp_all
  finally have lo: "1 / 2 ^ 6 \<le> y" by (simp add: y_def)
  have "real g * C < 2 ^ 53 * C" using gr Cpos by simp
  also have "\<dots> < 2 ^ 48" by (simp add: C_def)
  finally have hi: "y < 2 ^ 48" by (simp add: y_def)
  from fl_fine_grid [OF lo hi] obtain j where j: "5 \<le> j" and q53: "y * 2 ^ j < 2 ^ 53"
    and fy: "fl y = Fin (of_int (round_even (y * 2 ^ j)) / 2 ^ j)" by blast
  define R where "R = round_even (y * 2 ^ j)"
  define N where "N = int (n * 2 ^ j)"
  have gnr: "real g = 40 * real n + real r"
    unfolding n_def r_def by (metis mult_div_mod_eq of_nat_add of_nat_mult of_nat_numeral)
  have "40 * y = real g * (1 + 1 / 2 ^ 54)" unfolding y_def using C40 by (simp add: mult.commute mult.left_commute)
  then have y40: "40 * y = (40 * real n + real r) * (1 + 1 / 2 ^ 54)" using gnr by simp
  have p2: "(0::real) < 2 ^ j" by simp
  have j32: "(32::real) \<le> 2 ^ j"
  proof -
    have "(2::real) ^ 5 \<le> 2 ^ j" using j by (intro power_increasing) simp_all
    then show ?thesis by simp
  qed
  have Nr: "real_of_int N = real n * 2 ^ j" by (simp add: N_def)
  have err: "\<bar>real_of_int R - y * 2 ^ j\<bar> \<le> 1 / 2" unfolding R_def by (rule round_even_err)
  have rlt: "r < 40" by (simp add: r_def)
  show ?thesis
  proof (cases "r = 0")
    case True
    have yn: "y = real n * (1 + 1 / 2 ^ 54)" using y40 True by simp
    have Nq: "real_of_int N \<le> y * 2 ^ j" unfolding Nr yn by (simp add: field_simps)
    then have "real_of_int N < 2 ^ 53" using q53 by linarith
    then have "real_of_int N / 2 ^ 54 < 1 / 2" by simp
    moreover have "y * 2 ^ j = real_of_int N + real_of_int N / 2 ^ 54"
      unfolding Nr yn by (simp add: field_simps)
    ultimately have "y * 2 ^ j < real_of_int N + 1 / 2" by linarith
    then have "real_of_int R < real_of_int N + 1" using err by linarith
    then have "real_of_int R < real_of_int (N + 1)" by simp
    then have "R < N + 1" by (simp only: of_int_less_iff)
    then have "R \<le> N" by simp
    moreover have "N \<le> R" unfolding R_def using Nq by (rule round_even_ge)
    ultimately have "R = N" by simp
    then have "real_of_int R / 2 ^ j = real n" using Nr p2 by simp
    then have "fl y = Fin (real n)" using fy R_def by simp
    moreover have "(g + 39) div 40 = n"
    proof -
      have "g = 40 * n + r" unfolding n_def r_def by simp
      then have "g + 39 = 39 + n * 40" using True by simp
      then show ?thesis by simp
    qed
    ultimately show ?thesis unfolding y_def by (intro exI [of _ "real n"]) simp
  next
    case False
    then have r1: "1 \<le> real r" and r39: "real r \<le> 39" using rlt by simp_all
    have "real g / 2 ^ 54 < 1" using gr by simp
    then have "(40 * real n + real r) / 2 ^ 54 < 1" using gnr by simp
    then have "40 * y < 40 * (real n + 1)" unfolding y40 using r39 by (simp add: field_simps)
    then have yhi: "y < real n + 1" by simp
    have "40 * real n + 1 \<le> 40 * y" unfolding y40 using r1 by (simp add: field_simps)
    then have ylo: "real n + 1 / 40 \<le> y" by simp
    have le: "y * 2 ^ j \<le> (real n + 1) * 2 ^ j" using yhi by (intro mult_right_mono) simp_all
    have eq: "real_of_int (int ((n + 1) * 2 ^ j)) = (real n + 1) * 2 ^ j"
      by (simp add: algebra_simps)
    have "R \<le> int ((n + 1) * 2 ^ j)"
      unfolding R_def by (rule round_even_le) (simp only: eq le)
    then have "real_of_int R \<le> real_of_int (int ((n + 1) * 2 ^ j))"
      by (simp only: of_int_le_iff)
    then have "real_of_int R \<le> (real n + 1) * 2 ^ j" by (simp only: eq)
    then have up: "real_of_int R / 2 ^ j \<le> real n + 1" using p2 by (simp add: pos_divide_le_eq)
    have "(real n + 1 / 40) * 2 ^ j \<le> y * 2 ^ j" using ylo by (intro mult_right_mono) simp_all
    moreover have "32 / 40 \<le> (1 / 40) * (2::real) ^ j" using j32 by simp
    ultimately have "real n * 2 ^ j + 32 / 40 \<le> y * 2 ^ j" by (simp add: algebra_simps)
    then have "real n * 2 ^ j < real_of_int R" using err by linarith
    then have dn: "real n < real_of_int R / 2 ^ j" using p2 by (simp add: pos_less_divide_eq)
    have "\<lceil>real_of_int R / 2 ^ j\<rceil> = int n + 1"
      using dn up by (intro ceiling_unique_le) simp_all
    moreover have "(g + 39) div 40 = n + 1"
    proof -
      have "g = 40 * n + r" unfolding n_def r_def by simp
      then have "g + 39 = (r + 39) + n * 40" by simp
      then have "(g + 39) div 40 = (r + 39) div 40 + n" by simp
      moreover have "(r + 39) div 40 = 1" using False rlt by simp
      ultimately show ?thesis by simp
    qed
    ultimately show ?thesis
      unfolding y_def [symmetric] fy R_def [symmetric]
      by (intro exI [of _ "real_of_int R / 2 ^ j"]) simp
  qed
qed

lemma fl_nat_nonzero:
  assumes "0 < n"
  shows "fl (real n) \<noteq> Fin 0"
proof -
  define x where "x = real n"
  define e where "e = ilog 2 x - 52"
  have x: "0 < x" "1 \<le> x" using assms by (simp_all add: x_def)
  have k0: "0 \<le> ilog 2 x" using x by (intro ilog2_nonneg)
  have m: "max (ilog 2 x - 52) (- 1074) = e" using k0 by (simp add: e_def)
  have p: "0 < (2::real) powi e" by simp
  have "(2::real) powi (e + 52) = 2 powi e * 2 powi 52"
    by (rule power_int_add) simp
  moreover have "real 2 powi ilog 2 x \<le> x" using ilog_bounds [of x 2] x by simp
  ultimately have "2 powi e * 2 ^ 52 \<le> x" by (simp add: e_def)
  then have "2 ^ 52 \<le> x / 2 powi e" using p by (simp add: pos_le_divide_eq mult.commute)
  then have "real_of_int (2 ^ 52) \<le> x / 2 powi e" by simp
  then have r: "2 ^ 52 \<le> round_even (x / 2 powi e)" by (rule round_even_ge)
  have "(0::int) < 2 ^ 52" by simp
  from this r have "0 < round_even (x / 2 powi e)" by (rule less_le_trans)
  then show ?thesis
    unfolding x_def [symmetric] fl_def Let_def using x by (simp add: m)
qed

section \<open>Properties of the poller\<close>

lemma waitForTransaction_from_found:
  assumes "i + k < maxAttempts"
    and "\<forall>j<k. client (calls s + j) txHash = Inr None"
    and "client (calls s + k) txHash = Inr (Some tx)"
  shows "waitForTransaction_from client txHash maxAttempts delayMs i s =
           (Inr tx, s\<lparr>calls := calls s + Suc k, slept := slept s + k * delayMs\<rparr>)"
  using assms
proof (induction k arbitrary: i s)
  case 0
  then show ?case
    by (subst waitForTransaction_from.simps) (simp add: getTransaction_def)
next
  case (Suc k)
  let ?s = "sleep delayMs (s\<lparr>calls := Suc (calls s)\<rparr>)"
  have first: "client (calls s) txHash = Inr None"
    using Suc.prems(2) by (metis add.right_neutral zero_less_Suc)
  have rest: "\<forall>j<k. client (calls ?s + j) txHash = Inr None"
    using Suc.prems(2) by (auto simp: sleep_def)
  have hit: "client (calls ?s + k) txHash = Inr (Some tx)"
    using Suc.prems(3) by (simp add: sleep_def)
  have "waitForTransaction_from client txHash maxAttempts delayMs i s =
          waitForTransaction_from client txHash maxAttempts delayMs (Suc i) ?s"
    using Suc.prems(1) first
    by (subst waitForTransaction_from.simps) (simp add: getTransaction_def)
  also have "\<dots> = (Inr tx, ?s\<lparr>calls := calls ?s + Suc k, slept := slept ?s + k * delayMs\<rparr>)"
    using Suc.prems(1) by (intro Suc.IH rest hit) simp
  finally show ?case
    by (simp add: sleep_def add.commute add.left_commute)
qed

lemma waitForTransaction_from_exhausted:
  assumes "i + k = maxAttempts"
    and "\<forall>j<k. client (calls s + j) txHash = Inr None"
  shows "waitForTransaction_from client txHash maxAttempts delayMs i s =
           (Inl (not_found_after txHash maxAttempts),
            s\<lparr>calls := calls s + k, slept := slept s + k * delayMs\<rparr>)"
  using assms
proof (induction k arbitrary: i s)
  case 0
  then show ?case
    by (subst waitForTransaction_from.simps) simp
next
  case (Suc k)
  let ?s = "sleep delayMs (s\<lparr>calls := Suc (calls s)\<rparr>)"
  have first: "client (calls s) txHash = Inr None"
    using Suc.prems(2) by (metis add.right_neutral zero_less_Suc)
  have rest: "\<forall>j<k. client (calls ?s + j) txHash = Inr None"
    using Suc.prems(2) by (auto simp: sleep_def)
  have "waitForTransaction_from client txHash maxAttempts delayMs i s =
          waitForTransaction_from client txHash maxAttempts delayMs (Suc i) ?s"
    using Suc.prems(1) first
    by (subst waitForTransaction_from.simps) (simp add: getTransaction_def)
  also have "\<dots> = (Inl (not_found_after txHash maxAttempts),
                  ?s\<lparr>calls := calls ?s + k, slept := slept ?s + k * delayMs\<rparr>)"
    using Suc.prems(1) by (intro Suc.IH rest) simp
  finally show ?case
    by (simp add: sleep_def add.commute add.left_commute)
qed

text \<open>
  Claim C1. For every \<open>maxAttempts = N \<ge> 1\<close>, delay, hash and client: when the lookup answers
  \<^verbatim>\<open>null\<close> on the first \<open>k - 1\<close> calls and a receipt on the \<open>k\<close>-th, \<open>k \<le> N\<close>, the poller
  returns that receipt after exactly \<open>k\<close> lookups (and \<open>k - 1\<close> sleeps); when all \<open>N\<close> lookups
  answer \<^verbatim>\<open>null\<close> it makes exactly \<open>N\<close> lookups and fails with the error whose message
  carries the hash and the attempt count. Omitted arguments mean 20 attempts, 1000 ms apart.
\<close>

theorem waitForTransaction_bounded_poll:
  fixes client :: "'r lookup"
  assumes "1 \<le> N"
  shows "(1 \<le> k \<and> k \<le> N \<and> (\<forall>j<k - 1. client (calls s + j) txHash = Inr None) \<and>
            client (calls s + (k - 1)) txHash = Inr (Some tx) \<longrightarrow>
          waitForTransaction client txHash (Some N) (Some delayMs) s =
            (Inr tx, s\<lparr>calls := calls s + k, slept := slept s + (k - 1) * delayMs\<rparr>)) \<and>
         ((\<forall>j<N. client (calls s + j) txHash = Inr None) \<longrightarrow>
          waitForTransaction client txHash (Some N) (Some delayMs) s =
            (Inl (Error (''Transaction '' @ txHash @ '' not found after '' @ show_nat N @
                         '' attempts'')),
             s\<lparr>calls := calls s + N, slept := slept s + N * delayMs\<rparr>)) \<and>
         waitForTransaction client txHash None None s =
           waitForTransaction client txHash (Some 20) (Some 1000) s \<and>
         waitForTransaction client txHash (Some N) None s =
           waitForTransaction client txHash (Some N) (Some 1000) s \<and>
         waitForTransaction client txHash None (Some delayMs) s =
           waitForTransaction client txHash (Some 20) (Some delayMs) s"
proof (intro conjI impI)
  assume h: "1 \<le> k \<and> k \<le> N \<and> (\<forall>j<k - 1. client (calls s + j) txHash = Inr None) \<and>
             client (calls s + (k - 1)) txHash = Inr (Some tx)"
  then have bound: "0 + (k - 1) < N" and k: "Suc (k - 1) = k"
    by arith+
  from h have miss: "\<forall>j<k - 1. client (calls s + j) txHash = Inr None"
    and hit: "client (calls s + (k - 1)) txHash = Inr (Some tx)"
    by blast+
  show "waitForTransaction client txHash (Some N) (Some delayMs) s =
          (Inr tx, s\<lparr>calls := calls s + k, slept := slept s + (k - 1) * delayMs\<rparr>)"
    unfolding waitForTransaction_def option.case
      waitForTransaction_from_found
        [of 0 "k - 1" N client s txHash tx delayMs, OF bound miss hit] k ..
next
  assume h: "\<forall>j<N. client (calls s + j) txHash = Inr None"
  have "0 + N = N" by simp
  from waitForTransaction_from_exhausted [of 0 N N client s txHash delayMs, OF this h]
  show "waitForTransaction client txHash (Some N) (Some delayMs) s =
          (Inl (Error (''Transaction '' @ txHash @ '' not found after '' @ show_nat N @
                       '' attempts'')),
           s\<lparr>calls := calls s + N, slept := slept s + N * delayMs\<rparr>)"
    by (simp add: waitForTransaction_def not_found_after_def)
qed (simp_all add: waitForTransaction_def)

text \<open>
  A client that finds the receipt on its third answer, polled with three attempts 5 ms apart,
  and a client that never finds it.
\<close>

theorem waitForTransaction_bounded_poll_witness:
  "waitForTransaction (\<lambda>n h. if n < 2 then Inr None else Inr (Some (h @ ''-receipt''))) ''AB''
       (Some 3) (Some 5) \<lparr>calls = 0, slept = 0\<rparr> =
     (Inr ''AB-receipt'', \<lparr>calls = 3, slept = 10\<rparr>) \<and>
   waitForTransaction (\<lambda>n h. Inr None :: error + string option) ''AB''
       (Some 3) (Some 5) \<lparr>calls = 0, slept = 0\<rparr> =
     (Inl (Error ''Transaction AB not found after 3 attempts''), \<lparr>calls = 3, slept = 15\<rparr>)"
  using waitForTransaction_bounded_poll
          [of 3 3 "\<lambda>n h. if n < 2 then Inr None else Inr (Some (h @ ''-receipt''))"
              "\<lparr>calls = 0, slept = 0\<rparr>" "''AB''" "''AB-receipt''" 5]
        waitForTransaction_bounded_poll
          [of 3 3 "\<lambda>n h. Inr None :: error + string option"
              "\<lparr>calls = 0, slept = 0\<rparr>" "''AB''" "''AB-receipt''" 5]
  by (simp add: show_nat.simps digit_char_def)

section \<open>Properties of the amount and fee helpers\<close>

subsection \<open>Evaluation\<close>

lemmas parse_eval = parseFloat_def parseInt_def strip_sign_def is_space_def is_digit_def
  digit_of_def digits_val_def exponent_part_def

lemmas fl_eval = fl_def ilog.simps round_even_def Let_def

lemmas show_eval = show_nat.simps digit_char_def show_int_def

lemma show_int_nat: "show_int (int n) = show_nat n"
  by (simp add: show_int_def)

lemma toString_neg_nat:
  assumes "0 < n" "n \<le> 2 ^ 53"
  shows "Number_toString (Fin (- real n)) = ''-'' @ show_nat n"
proof -
  have "real n \<le> 2 ^ 53" using assms(2)
    by (metis numeral_power_eq_of_nat_cancel_iff of_nat_le_iff of_nat_numeral)
  then show ?thesis using assms(1) by (simp add: Number_toString_def)
qed

lemma toString_int:
  assumes "\<bar>i\<bar> \<le> 2 ^ 53"
  shows "Number_toString (Fin (of_int i)) = show_int i"
proof (cases "i < 0")
  case True
  define n where "n = nat (- i)"
  have i: "real_of_int i = - real n" using True by (simp add: n_def)
  have "0 < n" "n \<le> 2 ^ 53" using True assms by (simp_all add: n_def nat_le_iff)
  then show ?thesis
    unfolding i show_int_def n_def [symmetric] using True toString_neg_nat by simp
next
  case False
  define n where "n = nat i"
  have i: "real_of_int i = real n" using False by (simp add: n_def)
  have "n \<le> 2 ^ 53" using False assms by (simp add: n_def nat_le_iff)
  then show ?thesis
    unfolding i show_int_def n_def [symmetric] using False toString_nat by simp
qed

text \<open>The conversion to base units, once the amount is a finite number.\<close>

lemma parseXionAmount_Fin:
  assumes "(case amount of Str s \<Rightarrow> parseFloat s | Num n \<Rightarrow> n) = Fin a"
    and "fl (a * 10 ^ 6) = Fin p" and "\<bar>p\<bar> \<le> 2 ^ 53"
  shows "parseXionAmount amount = show_int \<lfloor>p\<rfloor>"
proof -
  have "- (2 ^ 53) \<le> \<lfloor>p\<rfloor>" using assms(3) by (simp add: le_floor_iff abs_le_iff)
  then have lo: "- \<lfloor>p\<rfloor> \<le> 2 ^ 53" by linarith
  have hi: "\<lfloor>p\<rfloor> \<le> 2 ^ 53" using assms(3) by (simp add: floor_le_iff abs_le_iff)
  have "\<bar>\<lfloor>p\<rfloor>\<bar> \<le> 2 ^ 53" using hi lo by (rule abs_leI)
  then have "Number_toString (Fin (of_int \<lfloor>p\<rfloor>)) = show_int \<lfloor>p\<rfloor>" by (rule toString_int)
  then show ?thesis
    using assms(1,2)
    by (simp add: parseXionAmount_def XION_CONFIG_decimals_def Math_pow_10_6 times_num_def
        Math_floor_def)
qed

lemma parse_1_9999995: "parseFloat ''1.9999995'' = Fin (4503598501470589 / 2251799813685248)"
  by (simp add: parse_eval, simp add: fl_eval)

lemma times_1_9999995: "fl (4503598501470589 / 2251799813685248 * 10 ^ 6) = Fin (3999999 / 2)"
  by (simp add: fl_eval)

text \<open>
  Claim C3. The amount \<^verbatim>\<open>"1.9999995"\<close> converts to \<^verbatim>\<open>"1999999"\<close> base units: the seventh
  fractional digit is cut off, not rounded up to \<^verbatim>\<open>"2000000"\<close>.
\<close>

theorem parseXionAmount_1_9999995:
  "parseXionAmount (Str ''1.9999995'') = ''1999999'' \<and>
   parseXionAmount (Str ''1.9999995'') \<noteq> ''2000000''"
proof -
  have "parseXionAmount (Str ''1.9999995'') = show_int \<lfloor>3999999 / 2 :: real\<rfloor>"
    by (rule parseXionAmount_Fin [OF _ times_1_9999995]) (simp_all add: parse_1_9999995)
  then have "parseXionAmount (Str ''1.9999995'') = ''1999999''"
    by (simp add: show_eval)
  then show ?thesis by simp
qed


subsection \<open>Conversions\<close>










subsection \<open>Round trip\<close>

lemma real_less_2_53: "n < 2 ^ 53 \<Longrightarrow> real n < 2 ^ 53"
  by (metis numeral_power_eq_of_nat_cancel_iff of_nat_less_iff of_nat_numeral)

lemma formatXionAmount_whole:
  assumes "m * 10 ^ 6 < 2 ^ 53"
  shows "formatXionAmount (Num (Fin (real (m * 10 ^ 6)))) = show_nat m @ ''.000000''"
    and "formatXionAmount (Str (show_nat (m * 10 ^ 6))) = show_nat m @ ''.000000''"
proof -
  have m: "m < 2 ^ 53" "m < 10 ^ 21"
  proof -
    have "m * 1 \<le> m * 10 ^ 6" by (intro mult_le_mono2) simp
    then show "m < 2 ^ 53" using assms by simp
    then show "m < 10 ^ 21" by simp
  qed
  have b: "fl (real (m * 10 ^ 6)) = Fin (real (m * 10 ^ 6))" using assms by (rule fl_nat)
  have d: "divide_num (Fin (real (m * 10 ^ 6))) (Fin 1000000) = Fin (real m)"
    using fl_nat [OF m(1)] by (simp add: divide_num_def)
  show "formatXionAmount (Num (Fin (real (m * 10 ^ 6)))) = show_nat m @ ''.000000''"
    unfolding formatXionAmount_def Let_def amount.case XION_CONFIG_decimals_def Math_pow_10_6 d
    using m(2) by (rule toFixed_nat)
  show "formatXionAmount (Str (show_nat (m * 10 ^ 6))) = show_nat m @ ''.000000''"
    unfolding formatXionAmount_def Let_def amount.case XION_CONFIG_decimals_def Math_pow_10_6
      parseInt_show_nat b d
    using m(2) by (rule toFixed_nat)
qed

lemma parseXionAmount_whole:
  assumes "m * 10 ^ 6 < 2 ^ 53"
  shows "parseXionAmount (Str (show_nat m @ ''.000000'')) = show_nat (m * 10 ^ 6)"
proof -
  have m: "m < 2 ^ 53"
  proof -
    have "m * 1 \<le> m * 10 ^ 6" by (intro mult_le_mono2) simp
    then show ?thesis using assms by simp
  qed
  have a: "(case Str (show_nat m @ ''.000000'') of Str s \<Rightarrow> parseFloat s | Num n \<Rightarrow> n) = Fin (real m)"
    using fl_nat [OF m] by (simp add: parseFloat_fixed)
  have p: "fl (real m * 10 ^ 6) = Fin (real (m * 10 ^ 6))"
    using fl_nat [OF assms] by simp
  have "\<bar>real (m * 10 ^ 6)\<bar> \<le> 2 ^ 53"
    using real_less_2_53 [OF assms] by simp
  from parseXionAmount_Fin [OF a p this]
  have "parseXionAmount (Str (show_nat m @ ''.000000'')) = show_int \<lfloor>real (m * 10 ^ 6)\<rfloor>" .
  then show ?thesis
    unfolding floor_of_nat show_int_nat .
qed

lemma parse_0_000249: "parseFloat ''0.000249'' = Fin (2296619637176839 / 9223372036854775808)"
  by (simp add: parse_eval, simp add: fl_eval)

lemma times_0_000249:
  "fl (2296619637176839 / 9223372036854775808 * 10 ^ 6) = Fin (8760908650119167 / 35184372088832)"
  by (simp add: fl_eval)

lemma fl_249_millionths: "fl (249 / 10 ^ 6) = Fin (2296619637176839 / 9223372036854775808)"
  by (simp add: fl_eval)

text \<open>
  Outside the whole display amounts the round trip can lose a base unit to the rounding of the
  product: 249 base units print as \<^verbatim>\<open>"0.000249"\<close>, which converts back to 248.
\<close>

lemma round_trip_249:
  "formatXionAmount (Num (Fin 249)) = ''0.000249'' \<and> parseXionAmount (Str ''0.000249'') = ''248''"
proof -
  have "divide_num (Fin 249) (Fin 1000000) = Fin (2296619637176839 / 9223372036854775808)"
    using fl_249_millionths by (simp add: divide_num_def)
  then have 1: "formatXionAmount (Num (Fin 249)) = ''0.000249''"
    by (simp add: formatXionAmount_def XION_CONFIG_decimals_def Math_pow_10_6 Number_toFixed_def
        show_eval replicate_numeral)
  have "parseXionAmount (Str ''0.000249'') = show_int \<lfloor>8760908650119167 / 35184372088832 :: real\<rfloor>"
    by (rule parseXionAmount_Fin [OF _ times_0_000249]) (simp_all add: parse_0_000249)
  then have 2: "parseXionAmount (Str ''0.000249'') = ''248''"
    by (simp add: show_eval)
  from 1 2 show ?thesis by simp
qed

text \<open>
  Claim C4. For every whole number of display units, \<open>b = m * 10 ^ 6\<close> base units (within the
  integers a number holds exactly, \<open>b < 2 ^ 53\<close>), printing \<open>b\<close> and converting the result
  back gives \<open>b\<close>, whether \<open>b\<close> was passed as a number or as its decimal string; one million
  base units print as \<^verbatim>\<open>"1.000000"\<close>, which converts back to \<^verbatim>\<open>"1000000"\<close>.
\<close>

theorem amount_round_trip:
  assumes "b = m * 10 ^ XION_CONFIG_decimals" and "b < 2 ^ 53"
  shows "parseXionAmount (Str (formatXionAmount (Num (Fin (real b))))) = show_nat b \<and>
         parseXionAmount (Str (formatXionAmount (Str (show_nat b)))) = show_nat b \<and>
         formatXionAmount (Num (Fin 1000000)) = ''1.000000'' \<and>
         parseXionAmount (Str ''1.000000'') = ''1000000''"
proof -
  have b: "b = m * 10 ^ 6" "m * 10 ^ 6 < 2 ^ 53"
    using assms by (simp_all add: XION_CONFIG_decimals_def)
  have one: "(1::nat) * 10 ^ 6 < 2 ^ 53" by simp
  have "formatXionAmount (Num (Fin (real (1 * 10 ^ 6)))) = show_nat 1 @ ''.000000''"
    using one by (rule formatXionAmount_whole(1))
  then have 3: "formatXionAmount (Num (Fin 1000000)) = ''1.000000''"
    by (simp add: show_eval)
  have "parseXionAmount (Str (show_nat 1 @ ''.000000'')) = show_nat (1 * 10 ^ 6)"
    using one by (rule parseXionAmount_whole)
  then have 4: "parseXionAmount (Str ''1.000000'') = ''1000000''"
    by (simp add: show_eval)
  show ?thesis
    unfolding b(1) formatXionAmount_whole [OF b(2)] parseXionAmount_whole [OF b(2)]
    using 3 4 by simp
qed

theorem amount_round_trip_witness:
  "(5000000::nat) = 5 * 10 ^ XION_CONFIG_decimals \<and> (5000000::nat) < 2 ^ 53 \<and>
   parseXionAmount (Str (formatXionAmount (Num (Fin 5000000)))) = ''5000000'' \<and>
   parseXionAmount (Str (formatXionAmount (Str ''5000000''))) = ''5000000''"
proof -
  have h1: "(5000000::nat) = 5 * 10 ^ XION_CONFIG_decimals"
    by (simp add: XION_CONFIG_decimals_def)
  have h2: "(5000000::nat) < 2 ^ 53" by simp
  have s: "show_nat 5000000 = ''5000000''" by (simp add: show_eval)
  from amount_round_trip [OF h1 h2]
  have "parseXionAmount (Str (formatXionAmount (Num (Fin 5000000)))) = ''5000000'' \<and>
        parseXionAmount (Str (formatXionAmount (Str ''5000000''))) = ''5000000''"
    by (simp add: s)
  with h1 h2 show ?thesis by (simp only: simp_thms)
qed


subsection \<open>Fees\<close>

lemma parse_gasPrice:
  "parseFloat XION_CONFIG_gasPrice = Fin (3602879701896397 / 144115188075855872)"
  by (simp add: XION_CONFIG_gasPrice_def parse_eval, simp add: fl_eval)

lemma ceiling_fortieth: "\<lceil>real g * (25 / 1000)\<rceil> = int ((g + 39) div 40)"
proof -
  define n where "n = g div 40"
  define r where "r = g mod 40"
  have g: "g = 40 * n + r" and r: "r < 40" by (simp_all add: n_def r_def)
  have d: "(g + 39) div 40 = n + (r + 39) div 40"
  proof -
    have "g + 39 = (r + 39) + n * 40" using g by simp
    then show ?thesis by simp
  qed
  have x: "real g * (25 / 1000) = real n + real r / 40" unfolding g by simp
  show ?thesis
  proof (cases "r = 0")
    case True
    then show ?thesis unfolding x d by simp
  next
    case False
    then have "(r + 39) div 40 = 1" using r by simp
    moreover have "\<lceil>real n + real r / 40\<rceil> = int n + 1"
    proof (rule ceiling_unique)
      show "real_of_int (int n + 1) - 1 < real n + real r / 40" using False by simp
      show "real n + real r / 40 \<le> real_of_int (int n + 1)" using r by simp
    qed
    ultimately show ?thesis unfolding x d by simp
  qed
qed

lemma calculateFee_nat:
  assumes "g < 2 ^ 53"
  shows "calculateFee (Fin (real g)) =
           \<lparr>fee_amount = [\<lparr>coin_denom = ''uxion'', coin_amount = show_nat ((g + 39) div 40)\<rparr>],
            fee_gas = show_nat g\<rparr>"
proof -
  from fee_product [OF assms] obtain p
    where p: "fl (real g * (3602879701896397 / 144115188075855872)) = Fin p"
      and c: "\<lceil>p\<rceil> = int ((g + 39) div 40)" by blast
  have "(g + 39) div 40 \<le> g + 39" by simp
  then have "(g + 39) div 40 \<le> 2 ^ 53" using assms by simp
  then have a: "Number_toString (Fin (real ((g + 39) div 40))) = show_nat ((g + 39) div 40)"
    by (rule toString_nat)
  have b: "Number_toString (Fin (real g)) = show_nat g"
    using assms by (intro toString_nat) simp
  have m: "Math_ceil (times_num (Fin (real g)) (Fin (3602879701896397 / 144115188075855872))) =
             Fin (real ((g + 39) div 40))"
    unfolding times_num_def prod.case number.case p Math_ceil_def c by simp
  show ?thesis
    unfolding calculateFee_def Let_def parse_gasPrice m a b XION_CONFIG_denom_def ..
qed

text \<open>
  Claim C5. For every whole gas amount \<open>g\<close> (within the integers a number holds exactly,
  \<open>g < 2 ^ 53\<close>) the fee has one coin, in \<^verbatim>\<open>uxion\<close>, of amount \<open>\<lceil>g * 0.025\<rceil>\<close>, and the gas
  limit \<open>g\<close>, both as decimal strings; 200000 gas cost 5000 base units.
\<close>

theorem calculateFee_ceiling:
  assumes "g < 2 ^ 53"
  shows "calculateFee (Fin (real g)) =
           \<lparr>fee_amount = [\<lparr>coin_denom = XION_CONFIG_denom,
                            coin_amount = show_int \<lceil>real g * (25 / 1000)\<rceil>\<rparr>],
            fee_gas = show_nat g\<rparr> \<and>
         calculateFee (Fin 200000) =
           \<lparr>fee_amount = [\<lparr>coin_denom = ''uxion'', coin_amount = ''5000''\<rparr>],
            fee_gas = ''200000''\<rparr>"
proof -
  have "(200000::nat) < 2 ^ 53" by simp
  from calculateFee_nat [OF this]
  have 2: "calculateFee (Fin 200000) =
             \<lparr>fee_amount = [\<lparr>coin_denom = ''uxion'', coin_amount = ''5000''\<rparr>],
              fee_gas = ''200000''\<rparr>"
    by (simp add: show_eval)
  show ?thesis
    unfolding ceiling_fortieth show_int_nat calculateFee_nat [OF assms] XION_CONFIG_denom_def
    using 2 by simp
qed

theorem calculateFee_ceiling_witness:
  "(200001::nat) < 2 ^ 53 \<and>
   calculateFee (Fin 200001) =
     \<lparr>fee_amount = [\<lparr>coin_denom = ''uxion'', coin_amount = ''5001''\<rparr>], fee_gas = ''200001''\<rparr>"
proof -
  have h: "(200001::nat) < 2 ^ 53" by simp
  have c: "\<lceil>real 200001 * (25 / 1000)\<rceil> = 5001"
    unfolding ceiling_fortieth by simp
  from calculateFee_ceiling [OF h, THEN conjunct1]
  have "calculateFee (Fin 200001) =
     \<lparr>fee_amount = [\<lparr>coin_denom = ''uxion'', coin_amount = ''5001''\<rparr>], fee_gas = ''200001''\<rparr>"
    unfolding c by (simp add: show_eval XION_CONFIG_denom_def)
  with h show ?thesis by (simp only: simp_thms)
qed

section \<open>Properties of the wallet loader and the scripts\<close>

lemmas step_defs = run_try_def bind_def emit_def call_def ret_def throw_def

text \<open>
  Claim C7. Without a mnemonic in the environment (unset, or set to the empty string) the
  wallet loader throws the error that says so and attempts no derivation; with one it derives
  the wallet from it with the configured prefix \<^verbatim>\<open>xion\<close>, by that one library call.
\<close>

theorem loadWallet_requires_mnemonic:
  "(\<not> truthy (env ''MNEMONIC'') \<longrightarrow>
      loadWallet rt env =
        ([], Inl (Error ''MNEMONIC not found in environment variables. Please set it in .env file''))) \<and>
   (env ''MNEMONIC'' = None \<longrightarrow> \<not> truthy (env ''MNEMONIC'')) \<and>
   (truthy (env ''MNEMONIC'') \<longrightarrow>
      loadWallet rt env =
        ([Call (FromMnemonic (the (env ''MNEMONIC'')) XION_CONFIG_addressPrefix)],
         fromMnemonic rt (the (env ''MNEMONIC'')) XION_CONFIG_addressPrefix)) \<and>
   createWalletFromMnemonic rt mnemonic =
     ([Call (FromMnemonic mnemonic ''xion'')], fromMnemonic rt mnemonic ''xion'')"
  by (simp add: loadWallet_def createWalletFromMnemonic_def step_defs truthy_def Let_def
      XION_CONFIG_addressPrefix_def)

theorem loadWallet_requires_mnemonic_witness:
  "loadWallet (funded_runtime ''0'') Map.empty =
     ([], Inl (Error ''MNEMONIC not found in environment variables. Please set it in .env file'')) \<and>
   loadWallet (funded_runtime ''0'') [''MNEMONIC'' \<mapsto> ''abandon ability able''] =
     ([Call (FromMnemonic ''abandon ability able'' ''xion'')], Inr ())"
  using loadWallet_requires_mnemonic [of Map.empty "funded_runtime ''0''"]
    loadWallet_requires_mnemonic [of "[''MNEMONIC'' \<mapsto> ''abandon ability able'']" "funded_runtime ''0''"]
  by (simp add: truthy_def funded_runtime_def XION_CONFIG_addressPrefix_def)

text \<open>
  Claim C6. Run without a contract address (\<^verbatim>\<open>CONTRACT_ADDRESS\<close> unset or empty), the mint
  script prints its banner and the three lines of the usage diagnostic and returns: it makes no
  library call (no wallet, no connection, no execution) and does not exit through the error
  handler.
\<close>

theorem mintToken_without_contract_address:
  assumes "\<not> truthy (env ''CONTRACT_ADDRESS'')"
  shows "mintToken rt env argv =
           [Log (''Minting new NFT...'' @ nl),
            LogError ''Error: CONTRACT_ADDRESS not set!'',
            Log ''   Please set CONTRACT_ADDRESS in your .env file'',
            Log ''   Or run: export CONTRACT_ADDRESS=xion1...''] \<and>
         calls_of (mintToken rt env argv) = [] \<and>
         exit_codes (mintToken rt env argv) = []"
  using assms by (simp add: mintToken_def step_defs calls_of_def exit_codes_def)

theorem mintToken_without_contract_address_witness:
  "\<not> truthy (Map.empty ''CONTRACT_ADDRESS'') \<and>
   mintToken (funded_runtime ''1000000'') Map.empty [''node'', ''mint-token.js'', ''7''] =
     [Log (''Minting new NFT...'' @ nl),
      LogError ''Error: CONTRACT_ADDRESS not set!'',
      Log ''   Please set CONTRACT_ADDRESS in your .env file'',
      Log ''   Or run: export CONTRACT_ADDRESS=xion1...''] \<and>
   calls_of (mintToken (funded_runtime ''1000000'') Map.empty [''node'', ''mint-token.js'', ''7'']) = []"
proof -
  have h: "\<not> truthy (Map.empty ''CONTRACT_ADDRESS'')" by (simp add: truthy_def)
  from mintToken_without_contract_address [OF h] h show ?thesis by blast
qed


subsection \<open>Library calls of a run\<close>

lemma calls_of_simps [simp]:
  "calls_of [] = []"
  "calls_of (Log s # evs) = calls_of evs"
  "calls_of (LogError s # evs) = calls_of evs"
  "calls_of (Call c # evs) = c # calls_of evs"
  "calls_of (Exit n # evs) = calls_of evs"
  "calls_of (xs @ ys) = calls_of xs @ calls_of ys"
  by (simp_all add: calls_of_def)

lemma exit_codes_simps [simp]:
  "exit_codes [] = []"
  "exit_codes (Log s # evs) = exit_codes evs"
  "exit_codes (LogError s # evs) = exit_codes evs"
  "exit_codes (Call c # evs) = exit_codes evs"
  "exit_codes (Exit n # evs) = n # exit_codes evs"
  "exit_codes (xs @ ys) = exit_codes xs @ exit_codes ys"
  by (simp_all add: exit_codes_def)

lemma calls_of_concat:
  "(\<And>x. x \<in> set xs \<Longrightarrow> calls_of (f x) = []) \<Longrightarrow> calls_of (concat (map f xs)) = []"
  by (induction xs) simp_all

lemma calls_of_map_Log: "calls_of (map (\<lambda>x. Log (f x)) xs) = []"
  by (induction xs) simp_all

lemma calls_of_events:
  "calls_of (concat (map (\<lambda>event. case event of TxEvent type attributes \<Rightarrow>
     Log (f type) # map (\<lambda>(key, val). Log (g key val)) attributes) events)) = []"
  by (rule calls_of_concat) (simp split: tx_event.split add: case_prod_unfold calls_of_map_Log)

lemma calls_of_logs:
  "calls_of (concat (map (\<lambda>log. case log of TxLog events \<Rightarrow>
     concat (map (\<lambda>event. case event of TxEvent type attributes \<Rightarrow>
       Log (f type) # map (\<lambda>(key, val). Log (g key val)) attributes) events)) ls)) = []"
  by (rule calls_of_concat) (simp split: tx_log.split add: calls_of_events)

lemma calls_of_printTxResult [simp]: "calls_of (printTxResult r) = []"
  by (simp add: printTxResult_def calls_of_logs)

lemma calls_of_handleError [simp]: "calls_of (handleError rt e) = []"
  by (simp add: handleError_def)

text \<open>
  Claim C10. Once the wallet is loaded, the client connected and the balance fetched, the
  deploy script returns early, with the funding warning and without instantiating, exactly when
  the balance amount reads as zero; for any other amount it goes on to the one instantiate call,
  with the wallet's address as sender, minter and admin. A balance printed in decimal reads
  as zero only if it is zero, so any positive balance, however small, passes the guard.
\<close>

theorem deployContract_balance_guard:
  assumes "truthy (env ''MNEMONIC'')"
    and "fromMnemonic rt (the (env ''MNEMONIC'')) XION_CONFIG_addressPrefix = Inr wallet"
    and "getAccounts rt wallet = Inr (account, others)"
    and "connectWithSigner rt XION_CONFIG_rpcEndpoint wallet XION_CONFIG_gasPrice = Inr ()"
    and "getBalance rt (address account) XION_CONFIG_denom = Inr balance"
  shows "(parseInt (coin_amount balance) = Fin 0 \<longrightarrow>
            deployContract rt env =
              [Log (''Deploying CW721 NFT Contract...'' @ nl),
               Log ''Loading wallet from environment...'',
               Call (FromMnemonic (the (env ''MNEMONIC'')) XION_CONFIG_addressPrefix),
               Call GetAccounts,
               Log (''Wallet loaded: '' @ address account @ nl),
               Log ''Connecting to XION network...'',
               Call (ConnectWithSigner XION_CONFIG_rpcEndpoint XION_CONFIG_gasPrice),
               Log (''Connected to '' @ XION_CONFIG_chainId @ nl),
               Call (GetBalance (address account) XION_CONFIG_denom),
               Log (''Wallet balance: '' @ coin_amount balance @ '' '' @ coin_denom balance),
               Log (nl @ ''Warning: Wallet has zero balance!''),
               Log ''   Please fund your wallet with testnet tokens before deploying.'',
               Log (''   Discord: '' @ XION_CONFIG_faucet_discord),
               Log (''   Command: '' @ XION_CONFIG_faucet_command)] \<and>
            filter is_instantiate (calls_of (deployContract rt env)) = []) \<and>
         (parseInt (coin_amount balance) \<noteq> Fin 0 \<longrightarrow>
            filter is_instantiate (calls_of (deployContract rt env)) =
              [Instantiate (address account) XION_CONFIG_cw721MetadataOnchainCodeId
                 (JObj [(''name'', JStr (or_default (env ''NFT_NAME'') ''My NFT Collection'')),
                        (''symbol'', JStr (or_default (env ''NFT_SYMBOL'') ''MNFT'')),
                        (''minter'', JStr (address account))])
                 (or_default (env ''CONTRACT_LABEL'') ''my-nft-contract'') ''auto''
                 (if address account = [] then None else Some (address account))]) \<and>
         (coin_amount balance = show_nat n \<longrightarrow>
            (parseInt (coin_amount balance) = Fin 0) = (n = 0))"
proof (intro conjI impI)
  assume z: "parseInt (coin_amount balance) = Fin 0"
  show "deployContract rt env =
              [Log (''Deploying CW721 NFT Contract...'' @ nl),
               Log ''Loading wallet from environment...'',
               Call (FromMnemonic (the (env ''MNEMONIC'')) XION_CONFIG_addressPrefix),
               Call GetAccounts,
               Log (''Wallet loaded: '' @ address account @ nl),
               Log ''Connecting to XION network...'',
               Call (ConnectWithSigner XION_CONFIG_rpcEndpoint XION_CONFIG_gasPrice),
               Log (''Connected to '' @ XION_CONFIG_chainId @ nl),
               Call (GetBalance (address account) XION_CONFIG_denom),
               Log (''Wallet balance: '' @ coin_amount balance @ '' '' @ coin_denom balance),
               Log (nl @ ''Warning: Wallet has zero balance!''),
               Log ''   Please fund your wallet with testnet tokens before deploying.'',
               Log (''   Discord: '' @ XION_CONFIG_faucet_discord),
               Log (''   Command: '' @ XION_CONFIG_faucet_command)]"
    using assms z
    by (simp add: deployContract_def step_defs loadWallet_def createWalletFromMnemonic_def
        getFirstAccount_def connectSigningClient_def Let_def)
  then show "filter is_instantiate (calls_of (deployContract rt env)) = []"
    by (simp add: is_instantiate_def)
next
  assume nz: "parseInt (coin_amount balance) \<noteq> Fin 0"
  show "filter is_instantiate (calls_of (deployContract rt env)) =
              [Instantiate (address account) XION_CONFIG_cw721MetadataOnchainCodeId
                 (JObj [(''name'', JStr (or_default (env ''NFT_NAME'') ''My NFT Collection'')),
                        (''symbol'', JStr (or_default (env ''NFT_SYMBOL'') ''MNFT'')),
                        (''minter'', JStr (address account))])
                 (or_default (env ''CONTRACT_LABEL'') ''my-nft-contract'') ''auto''
                 (if address account = [] then None else Some (address account))]"
    using assms nz
    by (cases "instantiate rt (address account) XION_CONFIG_cw721MetadataOnchainCodeId
                 (JObj [(''name'', JStr (or_default (env ''NFT_NAME'') ''My NFT Collection'')),
                        (''symbol'', JStr (or_default (env ''NFT_SYMBOL'') ''MNFT'')),
                        (''minter'', JStr (address account))])
                 (or_default (env ''CONTRACT_LABEL'') ''my-nft-contract'')
                 (if address account = [] then None else Some (address account))")
      (simp_all add: deployContract_def step_defs loadWallet_def createWalletFromMnemonic_def
        getFirstAccount_def connectSigningClient_def instantiateContract_def Let_def
        is_instantiate_def)
next
  assume d: "coin_amount balance = show_nat n"
  show "(parseInt (coin_amount balance) = Fin 0) = (n = 0)"
    unfolding d parseInt_show_nat using fl_nat_nonzero [of n] by (auto simp: fl_def)
qed


theorem deployContract_balance_guard_witness:
  "parseInt ''0'' = Fin 0 \<and>
   filter is_instantiate
     (calls_of (deployContract (funded_runtime ''0'') [''MNEMONIC'' \<mapsto> ''abandon ability able''])) =
     [] \<and>
   parseInt ''1'' \<noteq> Fin 0 \<and>
   filter is_instantiate
     (calls_of (deployContract (funded_runtime ''1'') [''MNEMONIC'' \<mapsto> ''abandon ability able''])) =
     [Instantiate ''xion1deployer'' 525
        (JObj [(''name'', JStr ''My NFT Collection''), (''symbol'', JStr ''MNFT''),
               (''minter'', JStr ''xion1deployer'')])
        ''my-nft-contract'' ''auto'' (Some ''xion1deployer'')]"
proof -
  let ?env = "[''MNEMONIC'' \<mapsto> ''abandon ability able'']"
  let ?account = "\<lparr>address = ''xion1deployer''\<rparr>"
  let ?b0 = "\<lparr>coin_denom = XION_CONFIG_denom, coin_amount = ''0''\<rparr>"
  let ?b1 = "\<lparr>coin_denom = XION_CONFIG_denom, coin_amount = ''1''\<rparr>"
  have m: "truthy (?env ''MNEMONIC'')"
    by (simp add: truthy_def)
  have w: "fromMnemonic (funded_runtime b) (the (?env ''MNEMONIC'')) XION_CONFIG_addressPrefix =
      Inr ()" for b
    by (simp add: funded_runtime_def)
  have a: "getAccounts (funded_runtime b) () = Inr (?account, [])" for b
    by (simp add: funded_runtime_def)
  have c: "connectWithSigner (funded_runtime b) XION_CONFIG_rpcEndpoint () XION_CONFIG_gasPrice =
      Inr ()" for b
    by (simp add: funded_runtime_def)
  have b: "getBalance (funded_runtime b) (address ?account) XION_CONFIG_denom =
      Inr \<lparr>coin_denom = XION_CONFIG_denom, coin_amount = b\<rparr>" for b
    by (simp add: funded_runtime_def)
  note zero = deployContract_balance_guard
    [where env = ?env and rt = "funded_runtime ''0''" and n = 0,
      OF m w [of "''0''"] a [of "''0''"] c [of "''0''"] b [of "''0''"]]
  note one = deployContract_balance_guard
    [where env = ?env and rt = "funded_runtime ''1''" and n = 1,
      OF m w [of "''1''"] a [of "''1''"] c [of "''1''"] b [of "''1''"]]
  have s0: "coin_amount ?b0 = show_nat 0" and s1: "coin_amount ?b1 = show_nat 1"
    by (simp_all add: show_nat.simps digit_char_def)
  from zero [THEN conjunct2, THEN conjunct2, THEN mp, OF s0]
  have p0: "parseInt (coin_amount ?b0) = Fin 0" by simp
  from one [THEN conjunct2, THEN conjunct2, THEN mp, OF s1]
  have p1: "parseInt (coin_amount ?b1) \<noteq> Fin 0" by simp
  note r0 = zero [THEN conjunct1, THEN mp, OF p0, THEN conjunct2]
  from one [THEN conjunct2, THEN conjunct1, THEN mp, OF p1]
  have r1: "filter is_instantiate (calls_of (deployContract (funded_runtime ''1'') ?env)) =
     [Instantiate ''xion1deployer'' 525
        (JObj [(''name'', JStr ''My NFT Collection''), (''symbol'', JStr ''MNFT''),
               (''minter'', JStr ''xion1deployer'')])
        ''my-nft-contract'' ''auto'' (Some ''xion1deployer'')]"
    by (simp add: or_default_def XION_CONFIG_cw721MetadataOnchainCodeId_def)
  from p0 p1 r0 r1 show ?thesis by simp
qed

subsection \<open>The ownership verification reads only\<close>

lemma calls_of_if_quiet:
  "calls_of xs = [] \<Longrightarrow> calls_of ys = [] \<Longrightarrow> calls_of (if b then xs else ys) = []"
  by simp

lemma calls_of_if_Log [simp]:
  "calls_of ((if b then Log x else Log y) # evs) = calls_of evs"
  by simp

lemma calls_of_field_line [simp]: "calls_of (field_line obj key label) = []"
  by (simp add: field_line_def split: option.split)

lemma calls_of_attempt:
  "(\<And>a. calls_of (print a) = []) \<Longrightarrow> calls_of fallback = [] \<Longrightarrow>
   calls_of (attempt (queryContract answer addr q) print fallback) = [QueryContractSmart addr q]"
  by (simp add: attempt_def queryContract_def call_def split: sum.split)

lemma calls_of_verifyOwnership:
  "list_all read_only (calls_of (verifyOwnership rt env argv))"
proof -
  have meta: "calls_of
      (case extension nftInfo of
         None \<Rightarrow> []
       | Some ext \<Rightarrow>
           field_line ext ''name'' ''   Name: '' @
           field_line ext ''description'' ''   Description: '' @
           field_line ext ''image'' ''   Image: '' @
           (let knownFields = [''name'', ''description'', ''image''];
                otherFields = filter (\<lambda>k. k \<notin> set knownFields) (map fst ext)
            in if otherFields \<noteq> []
               then Log ''   Additional metadata:'' #
                    map (\<lambda>field.
                           Log (''     '' @ field @ '': '' @
                                JSON_stringify rt (the (map_of ext field))))
                      otherFields
               else [])) = []" for nftInfo :: nft_info_response
    unfolding Let_def
    by (cases "extension nftInfo") (simp_all add: calls_of_map_Log calls_of_if_quiet)
  have toks: "calls_of
     (Log (nl @ ''Total NFTs owned by '' @ who @ '': '' @
           show_nat (length (tokens tokensResult))) #
      (if tokens tokensResult \<noteq> []
       then [Log (''   Token IDs: '' @ join '', '' (tokens tokensResult))]
       else [])) = []" for tokensResult :: tokens_response and who
    by simp
  have appr: "calls_of
     (if approvals ownerResult \<noteq> []
      then Log (''Approvals: '' @ show_nat (length (approvals ownerResult))) #
           map (\<lambda>(i, approval).
                  Log (''   '' @ show_nat (i + 1) @ ''. '' @ spender approval @
                       '' (expires: '' @ js_String (expires approval) @ '')''))
             (enumerate 0 (approvals ownerResult))
      else [Log ''Approvals: None'']) = []" for ownerResult :: owner_of_response
    by (simp add: case_prod_unfold calls_of_map_Log)
  have chk: "calls_of
     (if truthy EXPECTED_OWNER
      then [Log (nl @ ''Verification Check:''),
            Log (''   Expected: '' @ the EXPECTED_OWNER),
            Log (''   Actual: '' @ who),
            if who = the EXPECTED_OWNER
            then Log ''   MATCH - Ownership verified!''
            else Log ''   MISMATCH - Owner does not match expected address'']
      else []) = []" for EXPECTED_OWNER who
    by simp
  have handler: "calls_of (case error of Error message \<Rightarrow>
            if message \<noteq> [] \<and> string_includes message ''not found''
            then [LogError (nl @ ''Error: Token not found!''),
                  Log ''   The specified token ID does not exist in this contract.'',
                  Log ''   Please check the token ID and contract address.'']
            else handleError rt error) = []" for error
    by (cases error) simp
  show ?thesis
    unfolding verifyOwnership_def Let_def
    by (simp add: step_defs connectQueryClient_def queryContract_def [of "owner_of rt"]
        calls_of_attempt meta [unfolded Let_def] toks appr chk handler read_only_def
        split: sum.split del: append.simps)
qed


lemma fold_read_only:
  assumes "\<And>c \<sigma>. read_only c \<Longrightarrow> effect c \<sigma> = \<sigma>"
  shows "list_all read_only cs \<Longrightarrow> fold effect cs \<sigma> = \<sigma>"
  by (induction cs) (simp_all add: assms)

text \<open>
  Claim C9. Whatever the library calls do to the chain, as long as connecting, querying a
  contract and disconnecting leave it as it is, a run of the ownership verification leaves the
  chain, the environment and the command line as it found them, so a second run in a row gets
  the same answers and prints the same lines, owner and metadata among them, as the first.
\<close>

theorem verifyOwnership_repeatable:
  assumes "\<And>c \<sigma>. read_only c \<Longrightarrow> effect c \<sigma> = \<sigma>"
  shows "chain (run_verifyOwnership library effect s) = chain s \<and>
         session_env (run_verifyOwnership library effect s) = session_env s \<and>
         session_argv (run_verifyOwnership library effect s) = session_argv s \<and>
         console (run_verifyOwnership library effect (run_verifyOwnership library effect s)) =
           console s @ verifyOwnership (library (chain s)) (session_env s) (session_argv s) @
             verifyOwnership (library (chain s)) (session_env s) (session_argv s)"
proof -
  have "fold effect
          (calls_of (verifyOwnership (library (chain s)) (session_env s) (session_argv s)))
          (chain s) = chain s"
    using assms calls_of_verifyOwnership by (rule fold_read_only)
  then show ?thesis
    by (simp add: run_verifyOwnership_def Let_def)
qed

theorem verifyOwnership_repeatable_witness:
  "chain (run_verifyOwnership example_library example_effect example_session) =
     ''xion1deployer'' \<and>
   console (run_verifyOwnership example_library example_effect
     (run_verifyOwnership example_library example_effect example_session)) =
     verifyOwnership (example_library ''xion1deployer'')
       [''CONTRACT_ADDRESS'' \<mapsto> ''xion1contract'', ''TOKEN_ID'' \<mapsto> ''1'']
       [''node'', ''verify-ownership.js''] @
     verifyOwnership (example_library ''xion1deployer'')
       [''CONTRACT_ADDRESS'' \<mapsto> ''xion1contract'', ''TOKEN_ID'' \<mapsto> ''1'']
       [''node'', ''verify-ownership.js'']"
proof -
  have "example_effect c \<sigma> = \<sigma>" if "read_only c" for c \<sigma>
    using that by (cases c) (simp_all add: read_only_def example_effect_def)
  from verifyOwnership_repeatable [of example_effect example_library example_session, OF this]
  show ?thesis
    by (simp add: example_session_def)
qed

subsection \<open>Environment and command line\<close>

text \<open>
  Claim C8, as stated: with \<^verbatim>\<open>WAIT\<close> set to \<^verbatim>\<open>false\<close> in the environment, the monitor
  script still reads its fourth argument, and \<^verbatim>\<open>--wait\<close> there turns waiting on.
\<close>

theorem environment_precedence_counterexample:
  "truthy ([''WAIT'' \<mapsto> ''false''] ''WAIT'') \<and>
   monitorTransaction_WAIT_FOR_TX [''WAIT'' \<mapsto> ''false'']
     [''node'', ''monitor-transaction.js'', ''A1B2'', ''--wait''] \<and>
   \<not> monitorTransaction_WAIT_FOR_TX [''WAIT'' \<mapsto> ''false'']
     [''node'', ''monitor-transaction.js'', ''A1B2'']"
  by (simp add: truthy_def monitorTransaction_WAIT_FOR_TX_def argv_at_def)

text \<open>
  Claim C8, amended. Every parameter with a value takes the environment variable when it is
  set and not empty, and only otherwise the command line (and then, for some, a default); the
  wait flag of the monitor script is on when either \<^verbatim>\<open>WAIT\<close> is \<^verbatim>\<open>true\<close> or the fourth
  argument is \<^verbatim>\<open>--wait\<close>.
\<close>

theorem environment_precedence:
  "(truthy (env ''TOKEN_ID'') \<longrightarrow>
      mintToken_TOKEN_ID env argv = the (env ''TOKEN_ID'') \<and>
      verifyOwnership_TOKEN_ID env argv = env ''TOKEN_ID'' \<and>
      transferNFT_TOKEN_ID env argv = env ''TOKEN_ID'') \<and>
   (\<not> truthy (env ''TOKEN_ID'') \<longrightarrow>
      mintToken_TOKEN_ID env argv = or_default (argv_at argv 2) ''1'' \<and>
      verifyOwnership_TOKEN_ID env argv = argv_at argv 2 \<and>
      transferNFT_TOKEN_ID env argv = argv_at argv 2) \<and>
   (truthy (env ''OWNER_ADDRESS'') \<longrightarrow>
      mintToken_OWNER_ADDRESS env argv = env ''OWNER_ADDRESS'') \<and>
   (\<not> truthy (env ''OWNER_ADDRESS'') \<longrightarrow>
      mintToken_OWNER_ADDRESS env argv = argv_at argv 3) \<and>
   (truthy (env ''TOKEN_URI'') \<longrightarrow>
      mintToken_TOKEN_URI env argv = the (env ''TOKEN_URI'')) \<and>
   (\<not> truthy (env ''TOKEN_URI'') \<longrightarrow>
      mintToken_TOKEN_URI env argv = or_default (argv_at argv 4) ''ipfs://QmExample...'') \<and>
   (truthy (env ''RECIPIENT'') \<longrightarrow>
      transferGas_RECIPIENT env argv = env ''RECIPIENT'' \<and>
      transferNFT_RECIPIENT env argv = env ''RECIPIENT'') \<and>
   (\<not> truthy (env ''RECIPIENT'') \<longrightarrow>
      transferGas_RECIPIENT env argv = argv_at argv 2 \<and>
      transferNFT_RECIPIENT env argv = argv_at argv 3) \<and>
   (truthy (env ''AMOUNT'') \<longrightarrow> transferGas_AMOUNT env argv = env ''AMOUNT'') \<and>
   (\<not> truthy (env ''AMOUNT'') \<longrightarrow> transferGas_AMOUNT env argv = argv_at argv 3) \<and>
   (truthy (env ''TX_HASH'') \<longrightarrow> monitorTransaction_TX_HASH env argv = env ''TX_HASH'') \<and>
   (\<not> truthy (env ''TX_HASH'') \<longrightarrow> monitorTransaction_TX_HASH env argv = argv_at argv 2) \<and>
   (truthy (env ''EXPECTED_OWNER'') \<longrightarrow>
      verifyOwnership_EXPECTED_OWNER env argv = env ''EXPECTED_OWNER'') \<and>
   (\<not> truthy (env ''EXPECTED_OWNER'') \<longrightarrow>
      verifyOwnership_EXPECTED_OWNER env argv = argv_at argv 3) \<and>
   (truthy (env ''TX_TYPE'') \<longrightarrow>
      checkGasFee_TRANSACTION_TYPE env argv = the (env ''TX_TYPE'') \<and>
      signTransaction_TX_TYPE env argv = the (env ''TX_TYPE'')) \<and>
   (\<not> truthy (env ''TX_TYPE'') \<longrightarrow>
      checkGasFee_TRANSACTION_TYPE env argv = or_default (argv_at argv 2) ''mint'' \<and>
      signTransaction_TX_TYPE env argv = or_default (argv_at argv 2) ''send-tokens'') \<and>
   (truthy (env ''MESSAGE'') \<longrightarrow> signMessage_MESSAGE env argv = env ''MESSAGE'') \<and>
   (\<not> truthy (env ''MESSAGE'') \<longrightarrow>
      signMessage_MESSAGE env argv = Some (join '' '' (drop 2 argv))) \<and>
   (truthy (env ''OUTPUT_FILE'') \<longrightarrow>
      signTransaction_OUTPUT_FILE env argv = the (env ''OUTPUT_FILE'')) \<and>
   (\<not> truthy (env ''OUTPUT_FILE'') \<longrightarrow>
      signTransaction_OUTPUT_FILE env argv = or_default (argv_at argv 3) ''signed-tx.json'') \<and>
   monitorTransaction_WAIT_FOR_TX env argv =
     (env ''WAIT'' = Some ''true'' \<or> argv_at argv 3 = Some ''--wait'')"
  unfolding mintToken_TOKEN_ID_def verifyOwnership_TOKEN_ID_def transferNFT_TOKEN_ID_def
    mintToken_OWNER_ADDRESS_def mintToken_TOKEN_URI_def transferGas_RECIPIENT_def
    transferNFT_RECIPIENT_def transferGas_AMOUNT_def monitorTransaction_TX_HASH_def
    verifyOwnership_EXPECTED_OWNER_def checkGasFee_TRANSACTION_TYPE_def
    signTransaction_TX_TYPE_def signMessage_MESSAGE_def signTransaction_OUTPUT_FILE_def
    monitorTransaction_WAIT_FOR_TX_def
  by (simp add: or_else_def) (simp add: truthy_def or_default_def split: option.split)

theorem environment_precedence_witness:
  "mintToken_TOKEN_ID [''TOKEN_ID'' \<mapsto> ''7'', ''RECIPIENT'' \<mapsto> ''xion1env'']
     [''node'', ''script.js'', ''9'', ''xion1cli''] = ''7'' \<and>
   transferNFT_TOKEN_ID [''TOKEN_ID'' \<mapsto> ''7'', ''RECIPIENT'' \<mapsto> ''xion1env'']
     [''node'', ''script.js'', ''9'', ''xion1cli''] = Some ''7'' \<and>
   transferNFT_RECIPIENT [''TOKEN_ID'' \<mapsto> ''7'', ''RECIPIENT'' \<mapsto> ''xion1env'']
     [''node'', ''script.js'', ''9'', ''xion1cli''] = Some ''xion1env'' \<and>
   mintToken_OWNER_ADDRESS [''TOKEN_ID'' \<mapsto> ''7'', ''RECIPIENT'' \<mapsto> ''xion1env'']
     [''node'', ''script.js'', ''9'', ''xion1cli''] = Some ''xion1cli'' \<and>
   transferGas_AMOUNT [''TOKEN_ID'' \<mapsto> ''7'', ''RECIPIENT'' \<mapsto> ''xion1env'']
     [''node'', ''script.js'', ''9'', ''xion1cli''] = Some ''xion1cli'' \<and>
   monitorTransaction_TX_HASH [''TOKEN_ID'' \<mapsto> ''7'', ''RECIPIENT'' \<mapsto> ''xion1env'']
     [''node'', ''script.js'', ''9'', ''xion1cli''] = Some ''9'' \<and>
   signTransaction_OUTPUT_FILE [''TOKEN_ID'' \<mapsto> ''7'', ''RECIPIENT'' \<mapsto> ''xion1env'']
     [''node'', ''script.js'', ''9'', ''xion1cli''] = ''xion1cli'' \<and>
   mintToken_TOKEN_URI [''TOKEN_ID'' \<mapsto> ''7'', ''RECIPIENT'' \<mapsto> ''xion1env'']
     [''node'', ''script.js'', ''9'', ''xion1cli''] = ''ipfs://QmExample...'' \<and>
   \<not> monitorTransaction_WAIT_FOR_TX [''TOKEN_ID'' \<mapsto> ''7'', ''RECIPIENT'' \<mapsto> ''xion1env'']
     [''node'', ''script.js'', ''9'', ''xion1cli'']"
  using environment_precedence
    [of "[''TOKEN_ID'' \<mapsto> ''7'', ''RECIPIENT'' \<mapsto> ''xion1env'']"
        "[''node'', ''script.js'', ''9'', ''xion1cli'']"]
  by (simp add: truthy_def or_default_def argv_at_def)

end
